theory Spec2Isabelle
  imports Complex_Main
begin

section \<open>Security response automation: the data model\<close>

text \<open>
  The development embeds \<^verbatim>\<open>scripts/security-response-automation.py\<close>: the event and
  action classes, the verification policy of the action constructors, the state machine of
  \<^verbatim>\<open>ResponseAction.execute\<close> and the orchestration of \<^verbatim>\<open>SecurityResponseManager\<close>
  over its two directories of JSON records.

  Python strings are \<^typ>\<open>string\<close>, Python integers are \<^typ>\<open>int\<close>, \<^verbatim>\<open>None\<close> is
  \<^const>\<open>None\<close>. The status tags stay the string literals the code assigns.
\<close>

subsection \<open>JSON values\<close>

text \<open>
  The \<^verbatim>\<open>details\<close> of an event are whatever \<^verbatim>\<open>json.loads\<close> made of the caller's text:
  any JSON value, and the values under the keys the policy reads are of any kind too.
  \<open>JNull\<close> is Python's \<^verbatim>\<open>None\<close>; a dictionary is the list of its items, each key once.
\<close>

datatype json =
    JNull
  | JBool bool
  | JInt int
  | JFloat real
  | JStr string
  | JList "json list"
  | JDict "(string \<times> json) list"

text \<open>Python's truth test, as \<^verbatim>\<open>if v:\<close>, \<^verbatim>\<open>a and b\<close> and \<^verbatim>\<open>a or b\<close> apply it.\<close>

fun truthy :: "json \<Rightarrow> bool" where
  "truthy JNull = False"
| "truthy (JBool b) = b"
| "truthy (JInt n) = (n \<noteq> 0)"
| "truthy (JFloat r) = (r \<noteq> 0)"
| "truthy (JStr s) = (s \<noteq> [])"
| "truthy (JList xs) = (xs \<noteq> [])"
| "truthy (JDict kvs) = (kvs \<noteq> [])"

text \<open>Lists and dictionaries cannot be hashed, so they cannot be looked up in a dictionary.\<close>

fun hashable :: "json \<Rightarrow> bool" where
  "hashable (JList xs) = False"
| "hashable (JDict kvs) = False"
| "hashable v = True"

text \<open>\<^verbatim>\<open>d.get(k)\<close> on a dictionary: the value, or \<^verbatim>\<open>None\<close>.\<close>

definition dict_get :: "(string \<times> json) list \<Rightarrow> string \<Rightarrow> json" where
  "dict_get kvs k = (case map_of kvs k of None \<Rightarrow> JNull | Some v \<Rightarrow> v)"

text \<open>
  The exceptions that leave the methods modelled here: no handler on their way catches
  them.
\<close>

datatype exn = TypeError string | AttributeError string

subsection \<open>Configuration\<close>

text \<open>The keys of \<^verbatim>\<open>DEFAULT_CONFIG\<close> that the orchestrator reads.\<close>

record config =
  dry_run :: bool
  block_duration :: int
  trusted_ips :: "string list"
  critical_hosts :: "string list"
  max_auto_block_score :: int
  engine :: string
  auto_isolate_score :: int
  critical_containers :: "string list"
  auto_rotate_score :: int
  auto_capture :: bool
  auto_execute_score :: int
  available :: "string list"

definition DEFAULT_CONFIG :: config where
  "DEFAULT_CONFIG =
     \<lparr> dry_run = False,
       block_duration = 3600,
       trusted_ips = [''192.168.1.0/24''],
       critical_hosts = [''192.168.1.1'', ''192.168.1.2''],
       max_auto_block_score = 70,
       engine = ''docker'',
       auto_isolate_score = 90,
       critical_containers = [''pihole'', ''router'', ''proxy''],
       auto_rotate_score = 0,
       auto_capture = True,
       auto_execute_score = 0,
       available = [''brute_force'', ''malware_detection'', ''data_exfiltration'',
                    ''ransomware'', ''unauthorized_access''] \<rparr>"

subsection \<open>Events\<close>

text \<open>One entry of \<^verbatim>\<open>event.response_actions\<close>.\<close>

record response_entry =
  entry_action_id :: string
  entry_name :: string
  entry_status :: string
  entry_result :: "string option"

record security_event =
  ev_id :: string
  event_type :: string
  source :: string
  details :: json
  severity :: int
  timestamp :: nat
  ev_status :: string
  response_actions :: "response_entry list"
  ev_verification_status :: string
  verification_user :: "string option"
  verification_time :: "nat option"

text \<open>
  \<^verbatim>\<open>SecurityEvent.__init__\<close>. The identifier drawn from \<^verbatim>\<open>uuid.uuid4()\<close> and the instant
  read from \<^verbatim>\<open>datetime.now()\<close> are the first two arguments. The type, the source and
  the severity are a string, a string and an integer (the command line makes them so);
  the severity is stored as it is passed.
\<close>

definition SecurityEvent ::
  "string \<Rightarrow> nat \<Rightarrow> string \<Rightarrow> string \<Rightarrow> json \<Rightarrow> int \<Rightarrow> security_event" where
  "SecurityEvent uuid clock etype src dets sev =
     \<lparr> ev_id = uuid,
       event_type = etype,
       source = src,
       details = dets,
       severity = sev,
       timestamp = clock,
       ev_status = ''new'',
       response_actions = [],
       ev_verification_status = ''pending'',
       verification_user = None,
       verification_time = None \<rparr>"

text \<open>
  The dictionary written to \<^verbatim>\<open>events/<id>.json\<close>. Instants are stored in ISO format,
  which \<^verbatim>\<open>fromisoformat\<close> reads back to the same instant; the model keeps the instant.
\<close>

record event_dict =
  j_id :: string
  j_event_type :: string
  j_source :: string
  j_details :: json
  j_severity :: int
  j_timestamp :: nat
  j_status :: string
  j_response_actions :: "response_entry list"
  j_verification_status :: string
  j_verification_user :: "string option"
  j_verification_time :: "nat option"

definition event_to_dict :: "security_event \<Rightarrow> event_dict" where
  "event_to_dict e =
     \<lparr> j_id = ev_id e,
       j_event_type = event_type e,
       j_source = source e,
       j_details = details e,
       j_severity = severity e,
       j_timestamp = timestamp e,
       j_status = ev_status e,
       j_response_actions = response_actions e,
       j_verification_status = ev_verification_status e,
       j_verification_user = verification_user e,
       j_verification_time = verification_time e \<rparr>"

text \<open>
  \<^verbatim>\<open>SecurityEvent.from_dict\<close>: the constructor runs first (drawing an identifier and an
  instant of its own), then the stored fields overwrite the fresh ones.
\<close>

definition event_from_dict :: "string \<Rightarrow> nat \<Rightarrow> event_dict \<Rightarrow> security_event" where
  "event_from_dict uuid clock d =
     (let event = SecurityEvent uuid clock (j_event_type d) (j_source d) (j_details d) (j_severity d);
          event = event \<lparr> ev_id := j_id d \<rparr>;
          event = event \<lparr> timestamp := j_timestamp d \<rparr>;
          event = event \<lparr> ev_status := j_status d \<rparr>;
          event = event \<lparr> response_actions := j_response_actions d \<rparr>;
          event = event \<lparr> ev_verification_status := j_verification_status d \<rparr>;
          event = event \<lparr> verification_user := j_verification_user d \<rparr>
      in (case j_verification_time d of
            None \<Rightarrow> event
          | Some t \<Rightarrow> event \<lparr> verification_time := Some t \<rparr>))"

subsection \<open>Actions\<close>

text \<open>
  The five subclasses of \<^verbatim>\<open>ResponseAction\<close> with the attributes each constructor adds:
  \<^verbatim>\<open>ip_address, duration\<close>; \<^verbatim>\<open>container_id\<close>; \<^verbatim>\<open>credential_type, identifier, metadata\<close>;
  \<^verbatim>\<open>target, capture_types\<close>; \<^verbatim>\<open>playbook_name, parameters\<close>. The constructors are
  annotated with \<^verbatim>\<open>str\<close>, and nothing checks it: an attribute holds the value it was
  given, taken from the details. Only the playbook name is always a string (it was found
  among the keys of the available playbooks, or is a literal).
\<close>

datatype action_params =
    BlockIP json int
  | IsolateContainer json
  | RotateCredentials json json json
  | ForensicCapture json "string list"
  | ExecutePlaybook string json

text \<open>
  The attributes set by \<^verbatim>\<open>ResponseAction.__init__\<close>, and the subclass attributes in
  \<open>params\<close>. The attribute \<^verbatim>\<open>self.event\<close> is a reference to the one event object of the
  running call; the functions below pass that event alongside the action.
\<close>

record response_action =
  act_id :: string
  name :: string
  status :: string
  requires_verification :: bool
  verification_status :: string
  result :: "string option"
  start_time :: "nat option"
  end_time :: "nat option"
  error :: "string option"
  params :: action_params

text \<open>What \<^verbatim>\<open>_execute_impl\<close> does: it returns a result text or raises.\<close>

datatype outcome = Returned string | Raised string

text \<open>
  The collaborators outside the program, as parameters:
  \<^item> \<open>ip_address\<close>, \<open>ip_network\<close> and \<open>net_contains\<close> are \<^verbatim>\<open>ipaddress.ip_address\<close>,
    \<^verbatim>\<open>ipaddress.ip_network\<close> and \<^verbatim>\<open>ip in network\<close>; \<^const>\<open>None\<close> stands for the
    \<^verbatim>\<open>ValueError\<close> the parsers raise. \<open>ip_address\<close> is applied to the value found in
    the details, of whatever kind, and to the configured texts;
  \<^item> \<open>py_str\<close> is the text an f-string makes of a value that is not a string;
  \<^item> \<open>inspect_name\<close> is the stripped output of \<^verbatim>\<open><engine> inspect --format {{.Name}} <id>\<close>,
    \<^const>\<open>None\<close> when the subprocess fails;
  \<^item> \<open>execute_impl\<close> is the subclass's \<^verbatim>\<open>_execute_impl\<close>, acting on the infrastructure
    \<open>'w\<close> (firewall, container engine, credential scripts, playbooks);
  \<^item> \<open>now\<close> reads the clock, \<open>uuid4\<close> enumerates the identifiers \<^verbatim>\<open>uuid.uuid4()\<close> hands out.
\<close>

record ('ip, 'net, 'w) env =
  ip_address :: "json \<Rightarrow> 'ip option"
  ip_network :: "string \<Rightarrow> 'net option"
  net_contains :: "'net \<Rightarrow> 'ip \<Rightarrow> bool"
  inspect_name :: "string \<Rightarrow> string \<Rightarrow> string option"
  execute_impl :: "response_action \<Rightarrow> 'w \<Rightarrow> outcome \<times> 'w"
  now :: "'w \<Rightarrow> nat"
  uuid4 :: "nat \<Rightarrow> string"
  py_str :: "json \<Rightarrow> string"

text \<open>\<^verbatim>\<open>ResponseAction.__init__\<close>; \<open>cls\<close> is \<^verbatim>\<open>self.__class__.__name__\<close>.\<close>

definition ResponseAction :: "string \<Rightarrow> string \<Rightarrow> action_params \<Rightarrow> response_action" where
  "ResponseAction uuid cls ps =
     \<lparr> act_id = uuid,
       name = cls,
       status = ''pending'',
       requires_verification = True,
       verification_status = ''pending'',
       result = None,
       start_time = None,
       end_time = None,
       error = None,
       params = ps \<rparr>"

definition requires_human_verification :: "response_action \<Rightarrow> bool" where
  "requires_human_verification a = requires_verification a"

subsection \<open>The verification policy of the constructors\<close>

text \<open>
  The two loops of \<^verbatim>\<open>BlockIPAction.__init__\<close>. Each returns whether it found a match
  (and left through \<^verbatim>\<open>break\<close>), or \<^const>\<open>None\<close> when parsing a configured entry raised
  \<^verbatim>\<open>ValueError\<close> before a match.
\<close>

fun critical_loop :: "('ip, 'net, 'w) env \<Rightarrow> 'ip \<Rightarrow> string list \<Rightarrow> bool option" where
  "critical_loop E ip_obj [] = Some False"
| "critical_loop E ip_obj (critical # rest) =
     (case ip_address E (JStr critical) of
        None \<Rightarrow> None
      | Some c \<Rightarrow> if ip_obj = c then Some True else critical_loop E ip_obj rest)"

fun trusted_loop :: "('ip, 'net, 'w) env \<Rightarrow> 'ip \<Rightarrow> string list \<Rightarrow> bool option" where
  "trusted_loop E ip_obj [] = Some False"
| "trusted_loop E ip_obj (trusted_net # rest) =
     (case ip_network E trusted_net of
        None \<Rightarrow> None
      | Some n \<Rightarrow> if net_contains E n ip_obj then Some True else trusted_loop E ip_obj rest)"

text \<open>
  \<^verbatim>\<open>BlockIPAction.__init__\<close>. \<open>duration or config[...]\<close> takes the configured duration
  when the argument is \<^verbatim>\<open>None\<close> or zero. Every \<^verbatim>\<open>ValueError\<close> of the \<^verbatim>\<open>try\<close> block
  ends in the handler, which sets \<^verbatim>\<open>requires_verification = True\<close>.
\<close>

definition BlockIPAction ::
  "('ip, 'net, 'w) env \<Rightarrow> config \<Rightarrow> string \<Rightarrow> security_event \<Rightarrow> json \<Rightarrow> int option
     \<Rightarrow> response_action" where
  "BlockIPAction E cfg uuid event ip dur =
     (let d = (case dur of None \<Rightarrow> block_duration cfg
               | Some v \<Rightarrow> if v = 0 then block_duration cfg else v);
          self = ResponseAction uuid ''BlockIPAction'' (BlockIP ip d);
          block_score = max_auto_block_score cfg;
          self = self \<lparr> requires_verification := severity event \<le> block_score \<rparr>
      in (case ip_address E ip of
            None \<Rightarrow> self \<lparr> requires_verification := True \<rparr>
          | Some ip_obj \<Rightarrow>
              (case critical_loop E ip_obj (critical_hosts cfg) of
                 None \<Rightarrow> self \<lparr> requires_verification := True \<rparr>
               | Some hit \<Rightarrow>
                   (let self = (if hit then self \<lparr> requires_verification := True \<rparr> else self)
                    in (case trusted_loop E ip_obj (trusted_ips cfg) of
                          None \<Rightarrow> self \<lparr> requires_verification := True \<rparr>
                        | Some hit' \<Rightarrow>
                            if hit' then self \<lparr> requires_verification := True \<rparr> else self)))))"

text \<open>Python's \<^verbatim>\<open>sub in s\<close> on strings.\<close>

fun starts_with :: "string \<Rightarrow> string \<Rightarrow> bool" where
  "starts_with s [] = True"
| "starts_with [] (p # ps) = False"
| "starts_with (c # cs) (p # ps) = (c = p \<and> starts_with cs ps)"

fun str_in :: "string \<Rightarrow> string \<Rightarrow> bool" where
  "str_in sub [] = (sub = [])"
| "str_in sub (c # cs) = (starts_with (c # cs) sub \<or> str_in sub cs)"

text \<open>
  \<^verbatim>\<open>IsolateContainerAction._get_container_name\<close>: Docker's name loses its leading
  slashes, Podman's is returned as it is, any other engine gives \<^verbatim>\<open>None\<close>. The
  method catches \<^verbatim>\<open>subprocess.SubprocessError\<close>, which is the \<^const>\<open>None\<close> of
  \<open>inspect_name\<close>; an engine binary that cannot be started at all is not modelled.
  \<^verbatim>\<open>subprocess.run\<close> refuses an argument that is not a string with \<^verbatim>\<open>TypeError\<close>,
  which the method does not catch.
\<close>

definition get_container_name ::
  "('ip, 'net, 'w) env \<Rightarrow> config \<Rightarrow> json \<Rightarrow> exn + string option" where
  "get_container_name E cfg container_id =
     (if engine cfg = ''docker'' then
        (case container_id of
           JStr cid \<Rightarrow>
             Inr (map_option (dropWhile (\<lambda>c. c = CHR ''/'')) (inspect_name E ''docker'' cid))
         | _ \<Rightarrow> Inl (TypeError ''expected str, bytes or os.PathLike object''))
      else if engine cfg = ''podman'' then
        (case container_id of
           JStr cid \<Rightarrow> Inr (inspect_name E ''podman'' cid)
         | _ \<Rightarrow> Inl (TypeError ''expected str, bytes or os.PathLike object''))
      else Inr None)"

text \<open>
  \<^verbatim>\<open>IsolateContainerAction.__init__\<close>; \<^term>\<open>Inl x\<close> is the exception of the name lookup,
  which leaves the constructor.
\<close>

definition IsolateContainerAction ::
  "('ip, 'net, 'w) env \<Rightarrow> config \<Rightarrow> string \<Rightarrow> security_event \<Rightarrow> json
     \<Rightarrow> exn + response_action" where
  "IsolateContainerAction E cfg uuid event container_id =
     (let self = ResponseAction uuid ''IsolateContainerAction'' (IsolateContainer container_id);
          isolate_score = auto_isolate_score cfg;
          self = self \<lparr> requires_verification := severity event \<le> isolate_score \<rparr>
      in (case get_container_name E cfg container_id of
            Inl x \<Rightarrow> Inl x
          | Inr None \<Rightarrow> Inr self
          | Inr (Some container_name) \<Rightarrow>
              if container_name \<noteq> [] \<and>
                 (\<exists>critical \<in> set (critical_containers cfg). str_in critical container_name)
              then Inr (self \<lparr> requires_verification := True \<rparr>)
              else Inr self))"

text \<open>
  \<^verbatim>\<open>RotateCredentialsAction.__init__\<close>; \<open>metadata or {}\<close> replaces \<^verbatim>\<open>None\<close> (the
  default) and every other falsy value by the empty dictionary.
\<close>

definition RotateCredentialsAction ::
  "config \<Rightarrow> string \<Rightarrow> security_event \<Rightarrow> json \<Rightarrow> json \<Rightarrow> json \<Rightarrow> response_action" where
  "RotateCredentialsAction cfg uuid event credential_type identifier metadata =
     (let m = (if truthy metadata then metadata else JDict []);
          self = ResponseAction uuid ''RotateCredentialsAction''
                   (RotateCredentials credential_type identifier m);
          auto_rotate = auto_rotate_score cfg
      in self \<lparr> requires_verification := severity event \<le> auto_rotate \<rparr>)"

definition ForensicCaptureAction ::
  "config \<Rightarrow> string \<Rightarrow> security_event \<Rightarrow> json \<Rightarrow> string list option \<Rightarrow> response_action" where
  "ForensicCaptureAction cfg uuid event target capture_types =
     (let cts = (case capture_types of
                   None \<Rightarrow> [''network'', ''process'', ''filesystem'']
                 | Some v \<Rightarrow> if v = [] then [''network'', ''process'', ''filesystem''] else v);
          self = ResponseAction uuid ''ForensicCaptureAction'' (ForensicCapture target cts)
      in self \<lparr> requires_verification := False \<rparr>)"

text \<open>\<^verbatim>\<open>ExecutePlaybookAction.__init__\<close>; \<open>parameters or {}\<close> as for the metadata.\<close>

definition ExecutePlaybookAction ::
  "config \<Rightarrow> string \<Rightarrow> security_event \<Rightarrow> string \<Rightarrow> json \<Rightarrow> response_action" where
  "ExecutePlaybookAction cfg uuid event playbook_name parameters =
     (let ps = (if truthy parameters then parameters else JDict []);
          self = ResponseAction uuid ''ExecutePlaybookAction'' (ExecutePlaybook playbook_name ps);
          auto_execute = auto_execute_score cfg
      in self \<lparr> requires_verification := severity event \<le> auto_execute \<rparr>)"

section \<open>Execution and persistence\<close>

subsection \<open>The state machine of an action\<close>

text \<open>
  \<^verbatim>\<open>ResponseAction.execute\<close>, in two parts: the two assignments before the \<^verbatim>\<open>try\<close>
  block, and the block with its handler and its \<^verbatim>\<open>finally\<close> clause. The result is the
  returned flag, the action as it is left, and the infrastructure as it is left.
\<close>

definition begin_execute :: "('ip, 'net, 'w) env \<Rightarrow> response_action \<Rightarrow> 'w \<Rightarrow> response_action" where
  "begin_execute E self w = self \<lparr> start_time := Some (now E w), status := ''in_progress'' \<rparr>"

definition execute ::
  "('ip, 'net, 'w) env \<Rightarrow> config \<Rightarrow> response_action \<Rightarrow> 'w \<Rightarrow> bool \<times> response_action \<times> 'w" where
  "execute E cfg self0 w =
     (let self = begin_execute E self0 w
      in if dry_run cfg then
           (True,
            self \<lparr> result := Some ''Skipped (dry run mode)'', status := ''completed'',
                   end_time := Some (now E w) \<rparr>,
            w)
         else
           (case execute_impl E self w of
              (Returned r, w') \<Rightarrow>
                (True,
                 self \<lparr> result := Some r, status := ''completed'', end_time := Some (now E w') \<rparr>,
                 w')
            | (Raised e, w') \<Rightarrow>
                (False,
                 self \<lparr> error := Some e, status := ''failed'', end_time := Some (now E w') \<rparr>,
                 w')))"

subsection \<open>The store\<close>

text \<open>
  \<^verbatim>\<open>ResponseAction.to_dict\<close> writes these nine keys and no other; \<^verbatim>\<open>_save_action\<close>
  wraps them with the identifier of the event.
\<close>

record action_dict =
  d_id :: string
  d_name :: string
  d_status :: string
  d_requires_verification :: bool
  d_verification_status :: string
  d_result :: "string option"
  d_start_time :: "nat option"
  d_end_time :: "nat option"
  d_error :: "string option"

record action_file =
  file_action :: action_dict
  file_event_id :: string

definition action_to_dict :: "response_action \<Rightarrow> action_dict" where
  "action_to_dict a =
     \<lparr> d_id = act_id a,
       d_name = name a,
       d_status = status a,
       d_requires_verification = requires_verification a,
       d_verification_status = verification_status a,
       d_result = result a,
       d_start_time = start_time a,
       d_end_time = end_time a,
       d_error = error a \<rparr>"

text \<open>What the notification manager is asked to send.\<close>

datatype notification =
    EventNotification string
  | VerificationNotification string string
  | ActionNotification string string

text \<open>
  The manager's surroundings: the infrastructure, the two directories (one JSON file per
  identifier, a write replaces the file), the notifications sent, and how many identifiers
  \<^verbatim>\<open>uuid.uuid4()\<close> has handed out. Writing a file is taken to succeed.
\<close>

record 'w manager =
  world :: 'w
  events_dir :: "string \<rightharpoonup> event_dict"
  actions_dir :: "string \<rightharpoonup> action_file"
  outbox :: "notification list"
  uuid_count :: nat

definition save_event :: "security_event \<Rightarrow> 'w manager \<Rightarrow> 'w manager" where
  "save_event event s = s \<lparr> events_dir := (events_dir s)(ev_id event \<mapsto> event_to_dict event) \<rparr>"

definition save_action :: "response_action \<Rightarrow> security_event \<Rightarrow> 'w manager \<Rightarrow> 'w manager" where
  "save_action action event s =
     s \<lparr> actions_dir := (actions_dir s)(act_id action \<mapsto>
           \<lparr> file_action = action_to_dict action, file_event_id = ev_id event \<rparr>) \<rparr>"

definition send :: "notification \<Rightarrow> 'w manager \<Rightarrow> 'w manager" where
  "send n s = s \<lparr> outbox := outbox s @ [n] \<rparr>"

subsection \<open>The orchestrator\<close>

text \<open>
  \<^verbatim>\<open>SecurityResponseManager._execute_action\<close>. \<open>event\<close> is the object \<^verbatim>\<open>action.event\<close>
  refers to; the function returns it with the entry appended. \<^verbatim>\<open>execute\<close> catches
  every exception of the implementation, so the outer handler is reached only when a
  file cannot be written.
\<close>

definition execute_action ::
  "('ip, 'net, 'w) env \<Rightarrow> config \<Rightarrow> response_action \<Rightarrow> security_event \<Rightarrow> 'w manager
     \<Rightarrow> bool \<times> response_action \<times> security_event \<times> 'w manager" where
  "execute_action E cfg action0 event0 s =
     (case execute E cfg action0 (world s) of
        (res, action, w') \<Rightarrow>
          (let s = save_action action event0 (s \<lparr> world := w' \<rparr>);
               event = event0 \<lparr> response_actions := response_actions event0 @
                         [\<lparr> entry_action_id = act_id action, entry_name = name action,
                            entry_status = status action, entry_result = result action \<rparr>] \<rparr>;
               s = save_event event s;
               s = send (ActionNotification (act_id action) (status action)) s
           in (res, action, event, s)))"

text \<open>
  The body of \<^verbatim>\<open>_determine_response_actions\<close> for details that are a dictionary with
  the items \<open>kvs\<close>: its steps in order. A step is a constructor call whose action is
  appended, still waiting for the identifier its \<^verbatim>\<open>__init__\<close> draws; a step that
  raises ends the method. The last step is the test
  \<^verbatim>\<open>playbook and playbook in available\<close>: looking a list or a dictionary up among the
  keys raises \<^verbatim>\<open>TypeError\<close>, and a value that is no string equals no key.
\<close>

definition response_action_makers ::
  "('ip, 'net, 'w) env \<Rightarrow> config \<Rightarrow> security_event \<Rightarrow> (string \<times> json) list
     \<Rightarrow> (string \<Rightarrow> exn + response_action) list" where
  "response_action_makers E cfg event kvs =
     (if event_type event = ''suspicious_ip'' then
        (let ip = dict_get kvs ''ip_address''
         in if truthy ip then
              [\<lambda>u. Inr (BlockIPAction E cfg u event ip None)] @
              (if auto_capture cfg
               then [\<lambda>u. Inr (ForensicCaptureAction cfg u event ip (Some [''network'']))]
               else [])
            else [])
      else if event_type event = ''compromised_container'' then
        (let container_id = dict_get kvs ''container_id''
         in if truthy container_id then
              [\<lambda>u. IsolateContainerAction E cfg u event container_id] @
              (if auto_capture cfg
               then [\<lambda>u. Inr (ForensicCaptureAction cfg u event
                           (JStr (''container:'' @
                              (case container_id of JStr cid \<Rightarrow> cid | v \<Rightarrow> py_str E v)))
                           (Some [''network'', ''process'', ''filesystem'']))]
               else [])
            else [])
      else if event_type event = ''credential_compromise'' then
        (let cred_type = dict_get kvs ''credential_type'';
             identifier = dict_get kvs ''identifier''
         in if truthy cred_type \<and> truthy identifier then
              [\<lambda>u. Inr (RotateCredentialsAction cfg u event cred_type identifier
                           (dict_get kvs ''metadata''))]
            else [])
      else if event_type event = ''malware_detection'' then
        (if ''malware_detection'' \<in> set (available cfg)
         then [\<lambda>u. Inr (ExecutePlaybookAction cfg u event ''malware_detection'' (details event))]
         else []) @
        (if auto_capture cfg
         then [\<lambda>u. Inr (ForensicCaptureAction cfg u event
                      (if truthy (dict_get kvs ''target'') then dict_get kvs ''target''
                       else JStr (source event))
                      (Some [''process'', ''filesystem'']))]
         else [])
      else if event_type event = ''unauthorized_access'' then
        (if ''unauthorized_access'' \<in> set (available cfg)
         then [\<lambda>u. Inr (ExecutePlaybookAction cfg u event ''unauthorized_access'' (details event))]
         else []) @
        (let ip = dict_get kvs ''ip_address''
         in if truthy ip then [\<lambda>u. Inr (BlockIPAction E cfg u event ip None)] else [])
      else if event_type event = ''data_exfiltration'' then
        (if ''data_exfiltration'' \<in> set (available cfg)
         then [\<lambda>u. Inr (ExecutePlaybookAction cfg u event ''data_exfiltration'' (details event))]
         else []) @
        (let ip = dict_get kvs ''destination_ip''
         in if truthy ip then [\<lambda>u. Inr (BlockIPAction E cfg u event ip None)] else [])
      else []) @
     (let playbook = dict_get kvs ''suggested_playbook''
      in if truthy playbook then
           (if \<not> hashable playbook then [\<lambda>u. Inl (TypeError ''unhashable type'')]
            else (case playbook of
                    JStr p \<Rightarrow>
                      if p \<in> set (available cfg)
                      then [\<lambda>u. Inr (ExecutePlaybookAction cfg u event p (details event))]
                      else []
                  | _ \<Rightarrow> []))
         else [])"

text \<open>
  The steps run in order; the \<open>i\<close>-th draws the \<open>i\<close>-th next identifier, and the first
  that raises ends the run.
\<close>

fun construct_all ::
  "('ip, 'net, 'w) env \<Rightarrow> nat \<Rightarrow> (string \<Rightarrow> exn + response_action) list
     \<Rightarrow> exn + response_action list" where
  "construct_all E n [] = Inr []"
| "construct_all E n (mk # mks) =
     (case mk (uuid4 E n) of
        Inl x \<Rightarrow> Inl x
      | Inr a \<Rightarrow>
          (case construct_all E (Suc n) mks of
             Inl x \<Rightarrow> Inl x
           | Inr acts \<Rightarrow> Inr (a # acts)))"

text \<open>
  \<^verbatim>\<open>_determine_response_actions\<close>. Whatever the type of the event, the method reaches a
  call of \<^verbatim>\<open>event.details.get\<close> before anything it does can be observed; on details
  that are no dictionary that call raises \<^verbatim>\<open>AttributeError\<close>.
\<close>

definition determine_response_actions ::
  "('ip, 'net, 'w) env \<Rightarrow> config \<Rightarrow> security_event \<Rightarrow> 'w manager
     \<Rightarrow> (exn + response_action list) \<times> 'w manager" where
  "determine_response_actions E cfg event s =
     (case details event of
        JDict kvs \<Rightarrow>
          (let mks = response_action_makers E cfg event kvs
           in (construct_all E (uuid_count s) mks,
               s \<lparr> uuid_count := uuid_count s + length mks \<rparr>))
      | _ \<Rightarrow> (Inl (AttributeError ''object has no attribute get''), s))"

text \<open>The \<^verbatim>\<open>for action in actions\<close> loop of \<^verbatim>\<open>handle_security_event\<close>.\<close>

fun process_actions ::
  "('ip, 'net, 'w) env \<Rightarrow> config \<Rightarrow> response_action list \<Rightarrow> security_event \<Rightarrow> 'w manager
     \<Rightarrow> security_event \<times> 'w manager" where
  "process_actions E cfg [] event s = (event, s)"
| "process_actions E cfg (action # rest) event s =
     (if \<not> requires_human_verification action then
        (case execute_action E cfg action event s of
           (res, action', event', s') \<Rightarrow> process_actions E cfg rest event' s')
      else
        process_actions E cfg rest event
          (send (VerificationNotification (ev_id event) (act_id action))
             (save_action action event s)))"

text \<open>
  \<^verbatim>\<open>handle_security_event\<close>: the returned identifier or the exception that leaves the
  method, the event object as the call leaves it, and the manager's surroundings. An
  exception of \<^verbatim>\<open>_determine_response_actions\<close> is not caught; the event is saved and
  announced before.
\<close>

definition handle_security_event ::
  "('ip, 'net, 'w) env \<Rightarrow> config \<Rightarrow> security_event \<Rightarrow> 'w manager
     \<Rightarrow> (exn + string) \<times> security_event \<times> 'w manager" where
  "handle_security_event E cfg event s =
     (let s = save_event event s;
          s = send (EventNotification (ev_id event)) s
      in (case determine_response_actions E cfg event s of
            (Inl x, s) \<Rightarrow> (Inl x, event, s)
          | (Inr actions, s) \<Rightarrow>
              (case process_actions E cfg actions event s of
                 (event', s') \<Rightarrow> (Inr (ev_id event), event', s'))))"

subsection \<open>Verification of a stored action\<close>

text \<open>
  \<^verbatim>\<open>action_class(event, self.config, "placeholder")\<close> for the class that
  \<^verbatim>\<open>globals().get(action_type)\<close> finds. The five action classes are the names the
  program writes into a record; any other name is taken as not found.
  \<^verbatim>\<open>RotateCredentialsAction.__init__\<close> has two required parameters after
  \<^verbatim>\<open>config\<close>, so the call with one raises \<^verbatim>\<open>TypeError\<close> before the body runs.
  The handler of \<^verbatim>\<open>verify_action\<close> catches only \<^verbatim>\<open>JSONDecodeError\<close>,
  \<^verbatim>\<open>KeyError\<close> and \<^verbatim>\<open>ValueError\<close>.
\<close>

definition construct_placeholder ::
  "('ip, 'net, 'w) env \<Rightarrow> config \<Rightarrow> string \<Rightarrow> string \<Rightarrow> security_event
     \<Rightarrow> (exn + response_action) option" where
  "construct_placeholder E cfg action_type uuid event =
     (if action_type = ''BlockIPAction'' then
        Some (Inr (BlockIPAction E cfg uuid event (JStr ''placeholder'') None))
      else if action_type = ''IsolateContainerAction'' then
        Some (IsolateContainerAction E cfg uuid event (JStr ''placeholder''))
      else if action_type = ''RotateCredentialsAction'' then
        Some (Inl (TypeError ''__init__() missing 1 required positional argument: identifier''))
      else if action_type = ''ForensicCaptureAction'' then
        Some (Inr (ForensicCaptureAction cfg uuid event (JStr ''placeholder'') None))
      else if action_type = ''ExecutePlaybookAction'' then
        Some (Inr (ExecutePlaybookAction cfg uuid event ''placeholder'' JNull))
      else None)"

text \<open>
  Lines 1053 to 1056 of the source: the object the stored record is turned back into.
  Of the record only \<^verbatim>\<open>name\<close> (through the class) and \<^verbatim>\<open>status\<close> are read.
\<close>

definition restore_action ::
  "response_action \<Rightarrow> string \<Rightarrow> action_file \<Rightarrow> bool \<Rightarrow> response_action" where
  "restore_action action action_id data approve =
     action \<lparr> act_id := action_id,
              status := d_status (file_action data),
              verification_status := (if approve then ''approved'' else ''rejected'') \<rparr>"

text \<open>
  \<^verbatim>\<open>verify_action\<close>. \<^term>\<open>Inr b\<close> is the returned flag, \<^term>\<open>Inl x\<close> an exception that
  leaves the method. The status of the stored record is copied into the object and is
  not tested.
\<close>

definition verify_action ::
  "('ip, 'net, 'w) env \<Rightarrow> config \<Rightarrow> string \<Rightarrow> bool \<Rightarrow> string \<Rightarrow> 'w manager
     \<Rightarrow> (exn + bool) \<times> 'w manager" where
  "verify_action E cfg action_id approve user s =
     (case actions_dir s action_id of
        None \<Rightarrow> (Inr False, s)
      | Some data \<Rightarrow>
          (case events_dir s (file_event_id data) of
             None \<Rightarrow> (Inr False, s)
           | Some event_data \<Rightarrow>
               (let event = event_from_dict (uuid4 E (uuid_count s)) (now E (world s)) event_data;
                    s = s \<lparr> uuid_count := Suc (uuid_count s) \<rparr>
                in (case construct_placeholder E cfg (d_name (file_action data))
                           (uuid4 E (uuid_count s)) event of
                      None \<Rightarrow> (Inr False, s)
                    | Some (Inl x) \<Rightarrow> (Inl x, s)
                    | Some (Inr fresh) \<Rightarrow>
                        (let s = s \<lparr> uuid_count := Suc (uuid_count s) \<rparr>;
                             action = restore_action fresh action_id data approve
                         in if approve then
                              (case execute_action E cfg action event s of
                                 (res, action', event', s') \<Rightarrow> (Inr res, s'))
                            else
                              (let action = action \<lparr> status := ''rejected'' \<rparr>;
                                   s = save_action action event s;
                                   event = event \<lparr> response_actions := response_actions event @
                                     [\<lparr> entry_action_id = act_id action, entry_name = name action,
                                        entry_status = status action,
                                        entry_result = Some ''Action rejected by user'' \<rparr>] \<rparr>;
                                   s = save_event event s
                               in (Inr True, s)))))))"

section \<open>An instance of the collaborators\<close>

text \<open>
  The theorems below hold for every choice of the collaborators. To run the definitions on
  concrete inputs, this section fixes one choice: dotted-quad IPv4 addresses and networks
  in prefix notation, read the way \<^verbatim>\<open>ipaddress\<close> reads these (four decimal octets up to
  255 without leading zeros; a prefix length up to 32 and no host bit set); a container
  engine that knows one container; implementations that record the action they ran for
  and fail for \<^verbatim>\<open>IsolateContainerAction\<close>. The instance covers that fragment only: it
  rejects IPv6 literals and netmask notation, which \<^verbatim>\<open>ipaddress\<close> accepts, and it is
  applied below to dotted-quad inputs and to texts that are no address at all. Of the
  values that are no strings it reads an integer below \<open>2 ^ 32\<close> and a boolean as the
  address with that number, as \<^verbatim>\<open>ipaddress\<close> does, and rejects the rest.
\<close>

definition digit_val :: "char \<Rightarrow> nat option" where
  "digit_val c =
     (let n = (of_char c :: nat) in if 48 \<le> n \<and> n \<le> 57 then Some (n - 48) else None)"

fun decimal :: "string \<Rightarrow> nat \<Rightarrow> nat option" where
  "decimal [] acc = Some acc"
| "decimal (c # cs) acc =
     (case digit_val c of None \<Rightarrow> None | Some d \<Rightarrow> decimal cs (10 * acc + d))"

definition parse_octet :: "string \<Rightarrow> nat option" where
  "parse_octet s =
     (if s = [] \<or> 3 < length s \<or> (1 < length s \<and> hd s = CHR ''0'') then None
      else (case decimal s 0 of
              None \<Rightarrow> None
            | Some v \<Rightarrow> if v \<le> 255 then Some v else None))"

fun split_on :: "char \<Rightarrow> string \<Rightarrow> string list" where
  "split_on sep [] = [[]]"
| "split_on sep (c # cs) =
     (if c = sep then [] # split_on sep cs
      else (case split_on sep cs of
              [] \<Rightarrow> [[c]]
            | part # parts \<Rightarrow> (c # part) # parts))"

definition ipv4_address :: "string \<Rightarrow> nat option" where
  "ipv4_address s =
     (case map parse_octet (split_on CHR ''.'' s) of
        [Some a, Some b, Some c, Some d] \<Rightarrow> Some (((a * 256 + b) * 256 + c) * 256 + d)
      | _ \<Rightarrow> None)"

definition ipv4_network :: "string \<Rightarrow> (nat \<times> nat) option" where
  "ipv4_network s =
     (case split_on CHR ''/'' s of
        [addr] \<Rightarrow> map_option (\<lambda>a. (a, 32)) (ipv4_address addr)
      | [addr, pfx] \<Rightarrow>
          (case (ipv4_address addr, if pfx = [] then None else decimal pfx 0) of
             (Some a, Some p) \<Rightarrow>
               if p \<le> 32 \<and> a mod 2 ^ (32 - p) = 0 then Some (a, p) else None
           | _ \<Rightarrow> None)
      | _ \<Rightarrow> None)"

definition ipv4_contains :: "nat \<times> nat \<Rightarrow> nat \<Rightarrow> bool" where
  "ipv4_contains n ip = (ip div 2 ^ (32 - snd n) = fst n div 2 ^ (32 - snd n))"

definition json_address :: "json \<Rightarrow> nat option" where
  "json_address v =
     (case v of
        JStr s \<Rightarrow> ipv4_address s
      | JInt n \<Rightarrow> if 0 \<le> n \<and> n < 2 ^ 32 then Some (nat n) else None
      | JBool b \<Rightarrow> Some (if b then 1 else 0)
      | _ \<Rightarrow> None)"

definition sample_env :: "(nat, nat \<times> nat, string list) env" where
  "sample_env =
     \<lparr> ip_address = json_address,
       ip_network = ipv4_network,
       net_contains = ipv4_contains,
       inspect_name = (\<lambda>eng cid. if cid = ''c0ffee'' then Some ''/pihole-dns'' else None),
       execute_impl = (\<lambda>a w.
          (if name a = ''IsolateContainerAction'' then Raised ''docker: no such container''
           else Returned ''done'',
           w @ [act_id a])),
       now = length,
       uuid4 = (\<lambda>n. ''uuid-'' @ replicate n CHR ''i''),
       py_str = (\<lambda>v. ''<value>'') \<rparr>"

definition empty_manager :: "string list manager" where
  "empty_manager =
     \<lparr> world = [], events_dir = Map.empty, actions_dir = Map.empty, outbox = [],
       uuid_count = 0 \<rparr>"

definition scan_event :: security_event where
  "scan_event =
     SecurityEvent ''e1'' 0 ''suspicious_ip'' ''firewall''
       (JDict [(''ip_address'', JStr ''203.0.113.42'')]) 80"

definition container_event :: security_event where
  "container_event =
     SecurityEvent ''e2'' 0 ''compromised_container'' ''container-monitor''
       (JDict [(''container_id'', JStr ''deadbeef'')]) 95"

definition credential_event :: security_event where
  "credential_event =
     SecurityEvent ''e3'' 0 ''credential_compromise'' ''auth-monitor''
       (JDict [(''credential_type'', JStr ''system_user''), (''identifier'', JStr ''alice'')]) 0"

definition unmapped_event :: security_event where
  "unmapped_event = SecurityEvent ''e4'' 0 ''port_scan'' ''ids'' (JDict []) 50"

text \<open>The store after the scan event, and after the credential event, each from the empty store.\<close>

definition scanned :: "string list manager" where
  "scanned = snd (snd (handle_security_event sample_env DEFAULT_CONFIG scan_event empty_manager))"

definition pending_rotation :: "string list manager" where
  "pending_rotation =
     snd (snd (handle_security_event sample_env DEFAULT_CONFIG credential_event empty_manager))"

section \<open>Properties of the stored records\<close>



section \<open>The verification policy\<close>

lemma critical_loop_False:
  "critical_loop E ip_obj cs = Some False \<longleftrightarrow>
     (\<forall>c \<in> set cs. \<exists>co. ip_address E (JStr c) = Some co \<and> co \<noteq> ip_obj)"
  by (induction cs) (auto split: option.splits)

lemma trusted_loop_False:
  "trusted_loop E ip_obj ts = Some False \<longleftrightarrow>
     (\<forall>t \<in> set ts. \<exists>n. ip_network E t = Some n \<and> \<not> net_contains E n ip_obj)"
  by (induction ts) (auto split: option.splits)

lemma block_rv_loops:
  "requires_verification (BlockIPAction E cfg u event ip dur) =
     (severity event \<le> max_auto_block_score cfg \<or>
      (case ip_address E ip of
         None \<Rightarrow> True
       | Some ip_obj \<Rightarrow>
           critical_loop E ip_obj (critical_hosts cfg) \<noteq> Some False \<or>
           trusted_loop E ip_obj (trusted_ips cfg) \<noteq> Some False))"
  by (simp add: BlockIPAction_def Let_def split: option.split)

lemma block_rv:
  "requires_verification (BlockIPAction E cfg u event ip dur) =
     (severity event \<le> max_auto_block_score cfg \<or>
      \<not> (\<exists>ip_obj. ip_address E ip = Some ip_obj \<and>
           (\<forall>c \<in> set (critical_hosts cfg).
              \<exists>co. ip_address E (JStr c) = Some co \<and> co \<noteq> ip_obj) \<and>
           (\<forall>t \<in> set (trusted_ips cfg).
              \<exists>n. ip_network E t = Some n \<and> \<not> net_contains E n ip_obj)))"
  unfolding block_rv_loops critical_loop_False trusted_loop_False
  by (cases "ip_address E ip") simp_all

lemma isolate_rv_threshold:
  "IsolateContainerAction E cfg u event cid = Inr a \<Longrightarrow>
     severity event \<le> auto_isolate_score cfg \<Longrightarrow> requires_verification a"
  by (auto simp add: IsolateContainerAction_def Let_def split: sum.splits option.splits if_splits)

lemma isolate_rv_named:
  "IsolateContainerAction E cfg u event cid = Inr a \<Longrightarrow>
     get_container_name E cfg cid = Inr (Some n) \<Longrightarrow> n \<noteq> [] \<Longrightarrow>
     requires_verification a =
       (severity event \<le> auto_isolate_score cfg \<or>
        (\<exists>c \<in> set (critical_containers cfg). str_in c n))"
  by (auto simp add: IsolateContainerAction_def Let_def split: if_splits)

lemma isolate_fields:
  "IsolateContainerAction E cfg u event cid = Inr a \<Longrightarrow>
     act_id a = u \<and> name a = ''IsolateContainerAction'' \<and> status a = ''pending''"
  by (auto simp add: IsolateContainerAction_def ResponseAction_def Let_def
        split: sum.splits option.splits if_splits)

lemma rotate_rv:
  "requires_verification (RotateCredentialsAction cfg u event ct i m) =
     (severity event \<le> auto_rotate_score cfg)"
  by (simp add: RotateCredentialsAction_def Let_def)

lemma playbook_rv:
  "requires_verification (ExecutePlaybookAction cfg u event p ps) =
     (severity event \<le> auto_execute_score cfg)"
  by (simp add: ExecutePlaybookAction_def Let_def)

lemma sample_parse:
  "json_address (JStr ''203.0.113.42'') = Some 3405803818"
  "json_address (JStr ''not-an-ip'') = None"
  "json_address (JStr ''placeholder'') = None"
  "json_address (JStr ''192.168.1.1'') = Some 3232235777"
  "json_address (JStr ''192.168.1.2'') = Some 3232235778"
  "json_address (JStr ''192.168.1.77'') = Some 3232235853"
  "ipv4_network ''192.168.1.0/24'' = Some (3232235776, 24)"
  by (simp_all add: json_address_def ipv4_network_def ipv4_address_def parse_octet_def
        digit_val_def)

lemma sample_env_simps:
  "ip_address sample_env = json_address"
  "ip_network sample_env = ipv4_network"
  "net_contains sample_env = ipv4_contains"
  "now sample_env = length"
  "uuid4 sample_env n = ''uuid-'' @ replicate n CHR ''i''"
  "inspect_name sample_env eng cid = (if cid = ''c0ffee'' then Some ''/pihole-dns'' else None)"
  "execute_impl sample_env a w =
     (if name a = ''IsolateContainerAction'' then Raised ''docker: no such container''
      else Returned ''done'', w @ [act_id a])"
  by (simp_all add: sample_env_def)

lemma default_config_simps:
  "dry_run DEFAULT_CONFIG = False"
  "block_duration DEFAULT_CONFIG = 3600"
  "trusted_ips DEFAULT_CONFIG = [''192.168.1.0/24'']"
  "critical_hosts DEFAULT_CONFIG = [''192.168.1.1'', ''192.168.1.2'']"
  "max_auto_block_score DEFAULT_CONFIG = 70"
  "engine DEFAULT_CONFIG = ''docker''"
  "auto_isolate_score DEFAULT_CONFIG = 90"
  "critical_containers DEFAULT_CONFIG = [''pihole'', ''router'', ''proxy'']"
  "auto_rotate_score DEFAULT_CONFIG = 0"
  "auto_capture DEFAULT_CONFIG = True"
  "auto_execute_score DEFAULT_CONFIG = 0"
  "available DEFAULT_CONFIG = [''brute_force'', ''malware_detection'', ''data_exfiltration'',
                    ''ransomware'', ''unauthorized_access'']"
  by (simp_all add: DEFAULT_CONFIG_def)

text \<open>
  Claim C1, as the code has it. For \<^verbatim>\<open>BlockIPAction\<close>, \<open>requires_verification\<close> is
  true exactly when the severity is at most \<^verbatim>\<open>max_auto_block_score\<close> or the check of the
  target does not run to its end without a match: the action is auto-executable only if the
  severity exceeds the threshold, the address parses, every configured critical host parses
  to a different address and every configured trusted network parses and does not contain
  it. So a critical or trusted target, and also an address or a configured entry that does
  not parse, force verification. For \<^verbatim>\<open>RotateCredentialsAction\<close> and
  \<^verbatim>\<open>ExecutePlaybookAction\<close> it is true exactly when the severity is at most the
  threshold. For \<^verbatim>\<open>IsolateContainerAction\<close>, whenever the constructor returns, a severity
  at most \<^verbatim>\<open>auto_isolate_score\<close> requires verification, and when the container engine
  reports a non-empty name, verification is required exactly when the severity is at most
  the threshold or the name contains a critical entry. What the constructor decides when
  the engine reports no name is no part of the statement. No override turns a decision to
  verify into one to auto-execute.
\<close>

theorem requires_verification_policy:
  "(requires_verification (BlockIPAction E cfg u event ip dur) =
      (severity event \<le> max_auto_block_score cfg \<or>
       \<not> (\<exists>ip_obj. ip_address E ip = Some ip_obj \<and>
            (\<forall>c \<in> set (critical_hosts cfg).
               \<exists>co. ip_address E (JStr c) = Some co \<and> co \<noteq> ip_obj) \<and>
            (\<forall>t \<in> set (trusted_ips cfg).
               \<exists>n. ip_network E t = Some n \<and> \<not> net_contains E n ip_obj)))) \<and>
   (requires_verification (RotateCredentialsAction cfg u event ct i m) =
      (severity event \<le> auto_rotate_score cfg)) \<and>
   (requires_verification (ExecutePlaybookAction cfg u event p ps) =
      (severity event \<le> auto_execute_score cfg)) \<and>
   (severity event \<le> max_auto_block_score cfg \<longrightarrow>
      requires_verification (BlockIPAction E cfg u event ip dur)) \<and>
   (\<forall>a. IsolateContainerAction E cfg u event cid = Inr a \<longrightarrow>
      (severity event \<le> auto_isolate_score cfg \<longrightarrow> requires_verification a) \<and>
      (\<forall>n. get_container_name E cfg cid = Inr (Some n) \<and> n \<noteq> [] \<longrightarrow>
         requires_verification a =
           (severity event \<le> auto_isolate_score cfg \<or>
            (\<exists>c \<in> set (critical_containers cfg). str_in c n))))"
proof -
  note b = block_rv [of E cfg u event ip dur]
  from b have b': "severity event \<le> max_auto_block_score cfg \<longrightarrow>
      requires_verification (BlockIPAction E cfg u event ip dur)" by blast
  have i: "\<forall>a. IsolateContainerAction E cfg u event cid = Inr a \<longrightarrow>
      (severity event \<le> auto_isolate_score cfg \<longrightarrow> requires_verification a) \<and>
      (\<forall>n. get_container_name E cfg cid = Inr (Some n) \<and> n \<noteq> [] \<longrightarrow>
         requires_verification a =
           (severity event \<le> auto_isolate_score cfg \<or>
            (\<exists>c \<in> set (critical_containers cfg). str_in c n)))"
    using isolate_rv_threshold [of E cfg u event cid]
          isolate_rv_named [of E cfg u event cid]
    by blast
  show ?thesis
    using b rotate_rv [of cfg u event ct i m] playbook_rv [of cfg u event p ps] b' i
    by blast
qed

lemma isolate_sample:
  "IsolateContainerAction sample_env DEFAULT_CONFIG ''a1'' container_event (JStr ''c0ffee'') =
     Inr \<lparr> act_id = ''a1'', name = ''IsolateContainerAction'', status = ''pending'',
           requires_verification = True, verification_status = ''pending'', result = None,
           start_time = None, end_time = None, error = None,
           params = IsolateContainer (JStr ''c0ffee'') \<rparr>"
  "get_container_name sample_env DEFAULT_CONFIG (JStr ''c0ffee'') = Inr (Some ''pihole-dns'')"
  "severity container_event = 95"
  by (simp_all add: IsolateContainerAction_def ResponseAction_def get_container_name_def
        sample_env_simps default_config_simps container_event_def SecurityEvent_def)

text \<open>
  The policy at concrete inputs under the default configuration. At severity 80 a public
  address is blocked automatically, an address of the trusted network
  \<^verbatim>\<open>192.168.1.0/24\<close> is not, and a rotation and a playbook (thresholds 0) are
  auto-executable. At severity 95, above the threshold 90, the container the engine names
  \<^verbatim>\<open>pihole-dns\<close> still requires verification: its name contains the critical entry
  \<^verbatim>\<open>pihole\<close>.
\<close>

theorem requires_verification_policy_witness:
  "\<not> requires_verification
       (BlockIPAction sample_env DEFAULT_CONFIG ''a1'' scan_event (JStr ''203.0.113.42'') None) \<and>
   requires_verification
       (BlockIPAction sample_env DEFAULT_CONFIG ''a1'' scan_event (JStr ''192.168.1.77'') None) \<and>
   \<not> requires_verification
       (RotateCredentialsAction DEFAULT_CONFIG ''a1'' scan_event (JStr ''system_user'')
          (JStr ''alice'') JNull) \<and>
   \<not> requires_verification
       (ExecutePlaybookAction DEFAULT_CONFIG ''a1'' scan_event ''ransomware'' JNull) \<and>
   \<not> severity container_event \<le> auto_isolate_score DEFAULT_CONFIG \<and>
   get_container_name sample_env DEFAULT_CONFIG (JStr ''c0ffee'') = Inr (Some ''pihole-dns'') \<and>
   str_in ''pihole'' ''pihole-dns'' \<and>
   (\<exists>a. IsolateContainerAction sample_env DEFAULT_CONFIG ''a1'' container_event (JStr ''c0ffee'')
          = Inr a \<and> requires_verification a)"
proof -
  note t1 = requires_verification_policy [of sample_env DEFAULT_CONFIG "''a1''" scan_event
          "JStr ''203.0.113.42''" None "JStr ''system_user''" "JStr ''alice''" JNull
          "''ransomware''" JNull "JStr ''c0ffee''"]
  note t2 = requires_verification_policy [of sample_env DEFAULT_CONFIG "''a1''" scan_event
          "JStr ''192.168.1.77''" None "JStr ''system_user''" "JStr ''alice''" JNull
          "''ransomware''" JNull "JStr ''c0ffee''"]
  note t3 = requires_verification_policy [of sample_env DEFAULT_CONFIG "''a1''" container_event
          "JStr ''192.168.1.77''" None "JStr ''system_user''" "JStr ''alice''" JNull
          "''ransomware''" JNull "JStr ''c0ffee''"]
  have c1: "\<not> requires_verification
       (BlockIPAction sample_env DEFAULT_CONFIG ''a1'' scan_event (JStr ''203.0.113.42'') None) \<and>
   requires_verification
       (BlockIPAction sample_env DEFAULT_CONFIG ''a1'' scan_event (JStr ''192.168.1.77'') None) \<and>
   \<not> requires_verification
       (RotateCredentialsAction DEFAULT_CONFIG ''a1'' scan_event (JStr ''system_user'')
          (JStr ''alice'') JNull) \<and>
   \<not> requires_verification
       (ExecutePlaybookAction DEFAULT_CONFIG ''a1'' scan_event ''ransomware'' JNull)"
    using t1 t2
    by (simp add: sample_env_simps default_config_simps sample_parse ipv4_contains_def
          scan_event_def SecurityEvent_def)
  have s: "str_in ''pihole'' ''pihole-dns''" by simp
  obtain a where a: "IsolateContainerAction sample_env DEFAULT_CONFIG ''a1'' container_event
      (JStr ''c0ffee'') = Inr a"
    using isolate_sample(1) by blast
  from t3 a isolate_sample(2) have "requires_verification a =
           (severity container_event \<le> auto_isolate_score DEFAULT_CONFIG \<or>
            (\<exists>c \<in> set (critical_containers DEFAULT_CONFIG). str_in c ''pihole-dns''))"
    by blast
  then have rv: "requires_verification a" using s by (simp add: default_config_simps)
  have n: "\<not> severity container_event \<le> auto_isolate_score DEFAULT_CONFIG"
    by (simp add: isolate_sample default_config_simps)
  show ?thesis using c1 n isolate_sample(2) s a rv by blast
qed

text \<open>
  Claim C1 as it is worded fails: at severity 80 against the threshold 70, the target
  \<^verbatim>\<open>not-an-ip\<close> is on no protected list (it is no configured entry and parses to no
  address that could equal a critical host or lie in a trusted network), and the action
  still requires verification.
\<close>

theorem requires_verification_counterexample:
  "requires_verification
       (BlockIPAction sample_env DEFAULT_CONFIG ''a1'' scan_event (JStr ''not-an-ip'') None) \<and>
   \<not> severity scan_event \<le> max_auto_block_score DEFAULT_CONFIG \<and>
   ip_address sample_env (JStr ''not-an-ip'') = None \<and>
   ''not-an-ip'' \<notin> set (critical_hosts DEFAULT_CONFIG) \<and>
   ''not-an-ip'' \<notin> set (trusted_ips DEFAULT_CONFIG)"
  by (simp add: BlockIPAction_def sample_env_simps default_config_simps sample_parse
        scan_event_def SecurityEvent_def)

text \<open>
  Claim C10. A \<^verbatim>\<open>BlockIPAction\<close> whose address \<^verbatim>\<open>ipaddress.ip_address\<close> rejects requires
  verification, whatever the severity of the event and the configured threshold.
\<close>

theorem block_unparsable_requires_verification:
  "ip_address E ip = None \<Longrightarrow> requires_verification (BlockIPAction E cfg uuid event ip dur)"
  by (simp add: BlockIPAction_def Let_def)

text \<open>
  The address \<^verbatim>\<open>placeholder\<close> at severity 100, above the default threshold 70.
\<close>

theorem block_unparsable_requires_verification_witness:
  "ip_address sample_env (JStr ''placeholder'') = None \<and>
   \<not> severity (scan_event \<lparr> severity := 100 \<rparr>) \<le> max_auto_block_score DEFAULT_CONFIG \<and>
   requires_verification
       (BlockIPAction sample_env DEFAULT_CONFIG ''a1'' (scan_event \<lparr> severity := 100 \<rparr>)
          (JStr ''placeholder'') None)"
proof -
  have h: "ip_address sample_env (JStr ''placeholder'') = None"
    by (simp add: sample_env_simps sample_parse)
  show ?thesis
    using h block_unparsable_requires_verification [OF h, of DEFAULT_CONFIG "''a1''"
            "scan_event \<lparr> severity := 100 \<rparr>" None]
    by (simp add: default_config_simps)
qed


section \<open>Execution and the store\<close>




lemma execute_fields:
  "act_id (fst (snd (execute E cfg a w))) = act_id a"
  "name (fst (snd (execute E cfg a w))) = name a"
  "requires_verification (fst (snd (execute E cfg a w))) = requires_verification a"
  "verification_status (fst (snd (execute E cfg a w))) = verification_status a"
  "params (fst (snd (execute E cfg a w))) = params a"
  by (simp_all add: execute_def begin_execute_def Let_def split: prod.split outcome.split)

lemma execute_status:
  "status (fst (snd (execute E cfg a w))) = ''completed'' \<or>
   status (fst (snd (execute E cfg a w))) = ''failed''"
  by (simp add: execute_def begin_execute_def Let_def split: prod.split outcome.split)


lemma execute_action_eq:
  "execute_action E cfg a event s =
     (fst (execute E cfg a (world s)),
      fst (snd (execute E cfg a (world s))),
      event \<lparr> response_actions := response_actions event @
         [\<lparr> entry_action_id = act_id a, entry_name = name a,
            entry_status = status (fst (snd (execute E cfg a (world s)))),
            entry_result = result (fst (snd (execute E cfg a (world s)))) \<rparr>] \<rparr>,
      s \<lparr> world := snd (snd (execute E cfg a (world s))),
          actions_dir := (actions_dir s)(act_id a \<mapsto>
             \<lparr> file_action = action_to_dict (fst (snd (execute E cfg a (world s)))),
               file_event_id = ev_id event \<rparr>),
          events_dir := (events_dir s)(ev_id event \<mapsto> event_to_dict
             (event \<lparr> response_actions := response_actions event @
               [\<lparr> entry_action_id = act_id a, entry_name = name a,
                  entry_status = status (fst (snd (execute E cfg a (world s)))),
                  entry_result = result (fst (snd (execute E cfg a (world s)))) \<rparr>] \<rparr>)),
          outbox := outbox s @
             [ActionNotification (act_id a) (status (fst (snd (execute E cfg a (world s)))))] \<rparr>)"
proof (cases "execute E cfg a (world s)")
  case (fields r a' w')
  have "act_id a' = act_id a" "name a' = name a"
    using execute_fields(1,2) [of E cfg a "world s"] fields by simp_all
  then show ?thesis using fields
    by (simp add: execute_action_def save_action_def save_event_def send_def Let_def)
qed




lemma process_actions_Cons:
  "process_actions E cfg (a # rest) event s =
     (if requires_verification a then
        process_actions E cfg rest event
          (send (VerificationNotification (ev_id event) (act_id a)) (save_action a event s))
      else
        process_actions E cfg rest
          (fst (snd (snd (execute_action E cfg a event s))))
          (snd (snd (snd (execute_action E cfg a event s)))))"
  by (simp add: requires_human_verification_def split: prod.split)


lemma handle_security_event_eq:
  "handle_security_event E cfg event s =
     (case determine_response_actions E cfg event
             (s \<lparr> events_dir := (events_dir s)(ev_id event \<mapsto> event_to_dict event),
                  outbox := outbox s @ [EventNotification (ev_id event)] \<rparr>) of
        (Inl x, s') \<Rightarrow> (Inl x, event, s')
      | (Inr actions, s') \<Rightarrow>
          (Inr (ev_id event), process_actions E cfg actions event s'))"
  by (simp add: handle_security_event_def save_event_def send_def Let_def
        split: prod.split sum.split)





lemmas run_defs =
  handle_security_event_eq determine_response_actions_def response_action_makers_def
  execute_action_eq dict_get_def
  execute_def begin_execute_def save_event_def save_action_def send_def
  requires_human_verification_def
  BlockIPAction_def IsolateContainerAction_def RotateCredentialsAction_def
  ForensicCaptureAction_def ExecutePlaybookAction_def ResponseAction_def
  get_container_name_def action_to_dict_def event_to_dict_def
  sample_env_simps default_config_simps sample_parse ipv4_contains_def
  empty_manager_def SecurityEvent_def Let_def




section \<open>The loop over the derived actions\<close>

lemma process_actions_append:
  "process_actions E cfg (xs @ ys) event s =
     process_actions E cfg ys (fst (process_actions E cfg xs event s))
       (snd (process_actions E cfg xs event s))"
proof (induction xs arbitrary: event s)
  case Nil
  show ?case by simp
next
  case (Cons x xs)
  show ?case
    unfolding append_Cons process_actions_Cons
    by (simp del: process_actions.simps add: Cons.IH)
qed

lemma process_actions_other:
  "aid \<notin> act_id ` set acts \<Longrightarrow>
     actions_dir (snd (process_actions E cfg acts event s)) aid = actions_dir s aid"
proof (induction acts arbitrary: event s)
  case Nil
  show ?case by simp
next
  case (Cons x xs)
  from Cons.prems have a: "aid \<notin> act_id ` set xs" and b: "aid \<noteq> act_id x" by auto
  show ?case
    unfolding process_actions_Cons
    using b by (simp del: process_actions.simps add: Cons.IH [OF a] execute_action_eq
                  save_action_def send_def)
qed

lemma process_actions_dom_mono:
  "dom (actions_dir s) \<subseteq> dom (actions_dir (snd (process_actions E cfg acts event s)))"
proof (induction acts arbitrary: event s)
  case Nil
  show ?case by simp
next
  case (Cons x xs)
  show ?case
  proof (cases "requires_verification x")
    case True
    have "dom (actions_dir s) \<subseteq>
          dom (actions_dir (send (VerificationNotification (ev_id event) (act_id x))
                 (save_action x event s)))"
      by (auto simp add: save_action_def send_def)
    then show ?thesis
      unfolding process_actions_Cons using True Cons.IH
      by (simp del: process_actions.simps) blast
  next
    case False
    have "dom (actions_dir s) \<subseteq>
          dom (actions_dir (snd (snd (snd (execute_action E cfg x event s)))))"
      by (auto simp add: execute_action_eq)
    then show ?thesis
      unfolding process_actions_Cons using False Cons.IH
      by (simp del: process_actions.simps) blast
  qed
qed

lemma process_actions_stored:
  "b \<in> set acts \<Longrightarrow> act_id b \<in> dom (actions_dir (snd (process_actions E cfg acts event s)))"
proof (induction acts arbitrary: event s)
  case Nil
  then show ?case by simp
next
  case (Cons x xs)
  show ?case
  proof (cases "b = x")
    case True
    show ?thesis
    proof (cases "requires_verification x")
      case rv: True
      have "act_id x \<in> dom (actions_dir (send (VerificationNotification (ev_id event) (act_id x))
                 (save_action x event s)))"
        by (simp add: save_action_def send_def)
      then show ?thesis
        unfolding process_actions_Cons using rv True process_actions_dom_mono
        by (simp del: process_actions.simps) blast
    next
      case rv: False
      have "act_id x \<in> dom (actions_dir (snd (snd (snd (execute_action E cfg x event s)))))"
        by (simp add: execute_action_eq)
      then show ?thesis
        unfolding process_actions_Cons using rv True process_actions_dom_mono
        by (simp del: process_actions.simps) blast
    qed
  next
    case False
    with Cons.prems have "b \<in> set xs" by simp
    from Cons.IH [OF this] show ?thesis
      unfolding process_actions_Cons by (simp del: process_actions.simps)
  qed
qed

lemma process_actions_log_mono:
  "set (response_actions event) \<subseteq>
     set (response_actions (fst (process_actions E cfg acts event s)))"
proof (induction acts arbitrary: event s)
  case Nil
  show ?case by simp
next
  case (Cons x xs)
  show ?case
  proof (cases "requires_verification x")
    case True
    then show ?thesis
      unfolding process_actions_Cons using Cons.IH by (simp del: process_actions.simps)
  next
    case False
    have "set (response_actions event) \<subseteq>
          set (response_actions (fst (snd (snd (execute_action E cfg x event s)))))"
      by (auto simp add: execute_action_eq)
    then show ?thesis
      unfolding process_actions_Cons using False Cons.IH
      by (simp del: process_actions.simps) blast
  qed
qed

lemma process_actions_logged:
  "b \<in> set acts \<Longrightarrow> \<not> requires_verification b \<Longrightarrow>
     \<exists>x \<in> set (response_actions (fst (process_actions E cfg acts event s))).
        entry_action_id x = act_id b \<and>
        (entry_status x = ''completed'' \<or> entry_status x = ''failed'')"
proof (induction acts arbitrary: event s)
  case Nil
  then show ?case by simp
next
  case (Cons x xs)
  show ?case
  proof (cases "b = x")
    case True
    let ?e = "fst (snd (snd (execute_action E cfg x event s)))"
    let ?n = "\<lparr> entry_action_id = act_id x, entry_name = name x,
            entry_status = status (fst (snd (execute E cfg x (world s)))),
            entry_result = result (fst (snd (execute E cfg x (world s)))) \<rparr>"
    have "?n \<in> set (response_actions ?e)"
      by (simp add: execute_action_eq)
    then have m: "?n \<in> set (response_actions (fst (process_actions E cfg xs ?e
                 (snd (snd (snd (execute_action E cfg x event s)))))))"
      using process_actions_log_mono by blast
    have p: "entry_action_id ?n = act_id b \<and>
        (entry_status ?n = ''completed'' \<or> entry_status ?n = ''failed'')"
      using True execute_status [of E cfg x "world s"] by simp
    have "\<exists>y \<in> set (response_actions (fst (process_actions E cfg xs ?e
                 (snd (snd (snd (execute_action E cfg x event s))))))).
            entry_action_id y = act_id b \<and>
            (entry_status y = ''completed'' \<or> entry_status y = ''failed'')"
      using p m by blast
    then show ?thesis
      unfolding process_actions_Cons using True Cons.prems(2)
      by (simp del: process_actions.simps)
  next
    case False
    with Cons.prems have "b \<in> set xs" by simp
    from Cons.IH [OF this Cons.prems(2)] show ?thesis
      unfolding process_actions_Cons by (simp del: process_actions.simps)
  qed
qed


lemma execute_raises:
  assumes "\<not> dry_run cfg"
      and "fst (execute_impl E (begin_execute E a w) w) = Raised msg"
  shows "status (fst (snd (execute E cfg a w))) = ''failed''"
    and "error (fst (snd (execute E cfg a w))) = Some msg"
    and "fst (execute E cfg a w) = False"
proof -
  obtain w' where r: "execute_impl E (begin_execute E a w) w = (Raised msg, w')"
    using assms(2) by (cases "execute_impl E (begin_execute E a w) w") auto
  show "status (fst (snd (execute E cfg a w))) = ''failed''"
    using assms(1) r by (simp add: execute_def Let_def)
  show "error (fst (snd (execute E cfg a w))) = Some msg"
    using assms(1) r by (simp add: execute_def Let_def)
  show "fst (execute E cfg a w) = False"
    using assms(1) r by (simp add: execute_def Let_def)
qed

text \<open>
  Claim C7. In the loop of \<^verbatim>\<open>handle_security_event\<close> over the actions \<open>pre @ a # post\<close>
  of one event, let the implementation of the auto-executed action \<open>a\<close> raise \<open>msg\<close>
  (outside dry-run mode). Then the record stored for \<open>a\<close> has status \<^verbatim>\<open>failed\<close> and
  error \<open>msg\<close>, and the loop goes on: every action of the list, before and after \<open>a\<close>,
  has a stored record, and every one that does not require verification was executed to
  \<^verbatim>\<open>completed\<close> or \<^verbatim>\<open>failed\<close> and has its entry in the event's \<^verbatim>\<open>response_actions\<close>.
\<close>

theorem failed_action_does_not_abort_siblings:
  assumes "\<not> dry_run cfg" and "\<not> requires_verification a"
      and "fst (execute_impl E
                 (begin_execute E a (world (snd (process_actions E cfg pre event s))))
                 (world (snd (process_actions E cfg pre event s)))) = Raised msg"
      and "act_id a \<notin> act_id ` set post"
  shows "(\<exists>d. actions_dir (snd (process_actions E cfg (pre @ a # post) event s)) (act_id a)
                = Some d \<and>
              d_status (file_action d) = ''failed'' \<and> d_error (file_action d) = Some msg) \<and>
         (\<forall>b \<in> set (pre @ a # post).
            act_id b \<in> dom (actions_dir (snd (process_actions E cfg (pre @ a # post) event s)))) \<and>
         (\<forall>b \<in> set (pre @ a # post). \<not> requires_verification b \<longrightarrow>
            (\<exists>x \<in> set (response_actions (fst (process_actions E cfg (pre @ a # post) event s))).
               entry_action_id x = act_id b \<and>
               (entry_status x = ''completed'' \<or> entry_status x = ''failed'')))"
proof (intro conjI ballI impI)
  let ?e1 = "fst (process_actions E cfg pre event s)"
  let ?s1 = "snd (process_actions E cfg pre event s)"
  let ?e2 = "fst (snd (snd (execute_action E cfg a ?e1 ?s1)))"
  let ?s2 = "snd (snd (snd (execute_action E cfg a ?e1 ?s1)))"
  have split: "process_actions E cfg (pre @ a # post) event s = process_actions E cfg post ?e2 ?s2"
    unfolding process_actions_append process_actions_Cons using assms(2)
    by (simp del: process_actions.simps)
  have "actions_dir (snd (process_actions E cfg post ?e2 ?s2)) (act_id a) =
        actions_dir ?s2 (act_id a)"
    by (rule process_actions_other [OF assms(4)])
  also have "\<dots> = Some \<lparr> file_action = action_to_dict (fst (snd (execute E cfg a (world ?s1)))),
                           file_event_id = ev_id ?e1 \<rparr>"
    by (simp add: execute_action_eq)
  finally have rec: "actions_dir (snd (process_actions E cfg (pre @ a # post) event s)) (act_id a)
      = Some \<lparr> file_action = action_to_dict (fst (snd (execute E cfg a (world ?s1)))),
               file_event_id = ev_id ?e1 \<rparr>"
    unfolding split .
  show "\<exists>d. actions_dir (snd (process_actions E cfg (pre @ a # post) event s)) (act_id a)
                = Some d \<and>
              d_status (file_action d) = ''failed'' \<and> d_error (file_action d) = Some msg"
    unfolding rec
    using execute_raises(1,2) [OF assms(1) assms(3)]
    by (simp add: action_to_dict_def)
next
  fix b assume "b \<in> set (pre @ a # post)"
  then show "act_id b \<in> dom (actions_dir (snd (process_actions E cfg (pre @ a # post) event s)))"
    by (rule process_actions_stored)
next
  fix b assume "b \<in> set (pre @ a # post)" and "\<not> requires_verification b"
  then show "\<exists>x \<in> set (response_actions (fst (process_actions E cfg (pre @ a # post) event s))).
               entry_action_id x = act_id b \<and>
               (entry_status x = ''completed'' \<or> entry_status x = ''failed'')"
    by (rule process_actions_logged)
qed

text \<open>
  A compromised container at severity 95 under the default configuration: the isolation
  fails in the container engine, and the forensic capture derived from the same event is
  still executed and completes.
\<close>

theorem failed_action_does_not_abort_siblings_witness:
  "\<not> dry_run DEFAULT_CONFIG \<and>
   map_sum id (map (\<lambda>a. (name a, act_id a, requires_verification a)))
     (fst (determine_response_actions sample_env DEFAULT_CONFIG container_event empty_manager))
     = Inr [(''IsolateContainerAction'', ''uuid-'', False),
            (''ForensicCaptureAction'', ''uuid-i'', False)] \<and>
   (\<exists>d. actions_dir (snd (snd (handle_security_event sample_env DEFAULT_CONFIG container_event
            empty_manager))) ''uuid-'' = Some d \<and>
        d_status (file_action d) = ''failed'' \<and>
        d_error (file_action d) = Some ''docker: no such container'') \<and>
   ''uuid-i'' \<in> dom (actions_dir (snd (snd (handle_security_event sample_env DEFAULT_CONFIG
            container_event empty_manager)))) \<and>
   map (\<lambda>x. (entry_action_id x, entry_status x))
     (response_actions (fst (snd (handle_security_event sample_env DEFAULT_CONFIG container_event
        empty_manager))))
     = [(''uuid-'', ''failed''), (''uuid-i'', ''completed'')]"
proof -
  let ?A = "\<lparr> act_id = ''uuid-'', name = ''IsolateContainerAction'', status = ''pending'',
              requires_verification = False, verification_status = ''pending'', result = None,
              start_time = None, end_time = None, error = None,
              params = IsolateContainer (JStr ''deadbeef'') \<rparr>"
  let ?B = "ForensicCaptureAction DEFAULT_CONFIG ''uuid-i'' container_event
              (JStr ''container:deadbeef'') (Some [''network'', ''process'', ''filesystem''])"
  let ?s0 = "empty_manager \<lparr> events_dir := (events_dir empty_manager)
                (ev_id container_event \<mapsto> event_to_dict container_event),
             outbox := outbox empty_manager @ [EventNotification (ev_id container_event)] \<rparr>"
  let ?s = "?s0 \<lparr> uuid_count := Suc (Suc 0) \<rparr>"
  have iso: "IsolateContainerAction sample_env DEFAULT_CONFIG ''uuid-'' container_event
               (JStr ''deadbeef'') = Inr ?A"
    by (simp add: IsolateContainerAction_def ResponseAction_def get_container_name_def
          container_event_def SecurityEvent_def default_config_simps sample_env_simps)
  have det: "determine_response_actions sample_env DEFAULT_CONFIG container_event s' =
               (Inr ([] @ ?A # [?B]), s' \<lparr> uuid_count := uuid_count s' + 2 \<rparr>)"
    if "uuid_count s' = 0" for s' :: "string list manager"
    using that iso
    by (simp add: determine_response_actions_def response_action_makers_def dict_get_def
          container_event_def SecurityEvent_def default_config_simps sample_env_simps Let_def)
  have run: "snd (handle_security_event sample_env DEFAULT_CONFIG container_event empty_manager)
             = process_actions sample_env DEFAULT_CONFIG ([] @ ?A # [?B]) container_event ?s"
    unfolding handle_security_event_eq
    by (subst det) (simp_all del: process_actions.simps add: empty_manager_def)
  have h1: "\<not> dry_run DEFAULT_CONFIG" by (simp add: default_config_simps)
  have h2: "\<not> requires_verification ?A" by simp
  have nb: "name ?B = ''ForensicCaptureAction''" "act_id ?B = ''uuid-i''"
       "\<not> requires_verification ?B"
    by (simp_all add: ForensicCaptureAction_def ResponseAction_def Let_def)
  have h3: "fst (execute_impl sample_env
                 (begin_execute sample_env ?A
                    (world (snd (process_actions sample_env DEFAULT_CONFIG [] container_event ?s))))
                 (world (snd (process_actions sample_env DEFAULT_CONFIG [] container_event ?s))))
            = Raised ''docker: no such container''"
    by (simp add: sample_env_simps begin_execute_def)
  have h4: "act_id ?A \<notin> act_id ` set [?B]"
    using nb by simp
  note t = failed_action_does_not_abort_siblings [OF h1 h2 h3 h4, folded run]
  from t have c1: "\<exists>d. actions_dir (snd (snd (handle_security_event sample_env DEFAULT_CONFIG
            container_event empty_manager))) ''uuid-'' = Some d \<and>
        d_status (file_action d) = ''failed'' \<and>
        d_error (file_action d) = Some ''docker: no such container''"
    by simp
  from t have "act_id ?B \<in> dom (actions_dir (snd (snd (handle_security_event sample_env
            DEFAULT_CONFIG container_event empty_manager))))"
    by simp
  then have c2: "''uuid-i'' \<in> dom (actions_dir (snd (snd (handle_security_event sample_env
            DEFAULT_CONFIG container_event empty_manager))))"
    using nb by simp
  have c3: "map (\<lambda>x. (entry_action_id x, entry_status x))
     (response_actions (fst (snd (handle_security_event sample_env DEFAULT_CONFIG container_event
        empty_manager))))
     = [(''uuid-'', ''failed''), (''uuid-i'', ''completed'')]"
    by (simp add: container_event_def run_defs)
  have c0: "map_sum id (map (\<lambda>a. (name a, act_id a, requires_verification a)))
     (fst (determine_response_actions sample_env DEFAULT_CONFIG container_event empty_manager))
     = Inr [(''IsolateContainerAction'', ''uuid-'', False),
            (''ForensicCaptureAction'', ''uuid-i'', False)]"
    by (subst det) (simp_all add: empty_manager_def nb)
  show ?thesis using h1 c0 c1 c2 c3 by blast
qed


section \<open>Dry-run mode\<close>

text \<open>
  Claim C9. With \<^verbatim>\<open>dry_run\<close> set, \<^verbatim>\<open>execute\<close> takes an action (created
  \<^verbatim>\<open>pending\<close>) to \<^verbatim>\<open>in_progress\<close> and then to \<^verbatim>\<open>completed\<close> with the result
  \<^verbatim>\<open>Skipped (dry run mode)\<close>, and leaves the infrastructure as it was. The
  implementation is not consulted: replacing it by any other changes nothing in what
  \<^verbatim>\<open>_execute_action\<close> returns and stores. What \<^verbatim>\<open>_execute_action\<close> returns and
  stores is what it returns and stores on the real path for an implementation that returns
  that text and touches nothing. And the store it leaves is given in full: the file of the
  action under \<^verbatim>\<open>actions/\<close> holds the record of the completed action with the identifier
  of the event, the file of the event under \<^verbatim>\<open>events/\<close> holds the event with the new
  entry appended to its \<^verbatim>\<open>response_actions\<close>, and one action notification is sent.
\<close>

theorem dry_run_skips_implementation:
  assumes "dry_run cfg"
  shows "status (ResponseAction uuid cls ps) = ''pending'' \<and>
         status (begin_execute E a w) = ''in_progress'' \<and>
         execute E cfg a w =
           (True,
            (begin_execute E a w) \<lparr> result := Some ''Skipped (dry run mode)'',
                                   status := ''completed'', end_time := Some (now E w) \<rparr>,
            w) \<and>
         execute_action (E \<lparr> execute_impl := f \<rparr>) cfg a event s = execute_action E cfg a event s \<and>
         execute_action E cfg a event s =
           execute_action (E \<lparr> execute_impl := (\<lambda>a w. (Returned ''Skipped (dry run mode)'', w)) \<rparr>)
             (cfg \<lparr> dry_run := False \<rparr>) a event s \<and>
         execute_action E cfg a event s =
           (True,
            (begin_execute E a (world s)) \<lparr> result := Some ''Skipped (dry run mode)'',
               status := ''completed'', end_time := Some (now E (world s)) \<rparr>,
            event \<lparr> response_actions := response_actions event @
               [\<lparr> entry_action_id = act_id a, entry_name = name a,
                  entry_status = ''completed'',
                  entry_result = Some ''Skipped (dry run mode)'' \<rparr>] \<rparr>,
            s \<lparr> actions_dir := (actions_dir s)(act_id a \<mapsto>
                   \<lparr> file_action = action_to_dict
                        ((begin_execute E a (world s)) \<lparr> result := Some ''Skipped (dry run mode)'',
                           status := ''completed'', end_time := Some (now E (world s)) \<rparr>),
                     file_event_id = ev_id event \<rparr>),
                events_dir := (events_dir s)(ev_id event \<mapsto> event_to_dict
                   (event \<lparr> response_actions := response_actions event @
                      [\<lparr> entry_action_id = act_id a, entry_name = name a,
                         entry_status = ''completed'',
                         entry_result = Some ''Skipped (dry run mode)'' \<rparr>] \<rparr>)),
                outbox := outbox s @ [ActionNotification (act_id a) ''completed''] \<rparr>)"
proof -
  have ex: "execute E cfg a w =
           (True,
            (begin_execute E a w) \<lparr> result := Some ''Skipped (dry run mode)'',
                                   status := ''completed'', end_time := Some (now E w) \<rparr>,
            w)" for E :: "('a, 'b, 'c) env" and w
    using assms by (simp add: execute_def Let_def)
  have b: "begin_execute (E \<lparr> execute_impl := g \<rparr>) a w = begin_execute E a w" for g w
    by (simp add: begin_execute_def)
  have ex': "execute (E \<lparr> execute_impl := g \<rparr>) cfg a w = execute E cfg a w" for g w
    unfolding ex b by simp
  have real: "execute (E \<lparr> execute_impl := (\<lambda>a w. (Returned ''Skipped (dry run mode)'', w)) \<rparr>)
                (cfg \<lparr> dry_run := False \<rparr>) a w = execute E cfg a w" for w
    unfolding ex by (simp add: execute_def Let_def b)
  have 1: "execute_action (E \<lparr> execute_impl := f \<rparr>) cfg a event s = execute_action E cfg a event s"
    unfolding execute_action_eq ex' by simp
  have 2: "execute_action E cfg a event s =
           execute_action (E \<lparr> execute_impl := (\<lambda>a w. (Returned ''Skipped (dry run mode)'', w)) \<rparr>)
             (cfg \<lparr> dry_run := False \<rparr>) a event s"
    unfolding execute_action_eq real by simp
  have 3: "execute_action E cfg a event s =
           (True,
            (begin_execute E a (world s)) \<lparr> result := Some ''Skipped (dry run mode)'',
               status := ''completed'', end_time := Some (now E (world s)) \<rparr>,
            event \<lparr> response_actions := response_actions event @
               [\<lparr> entry_action_id = act_id a, entry_name = name a,
                  entry_status = ''completed'',
                  entry_result = Some ''Skipped (dry run mode)'' \<rparr>] \<rparr>,
            s \<lparr> actions_dir := (actions_dir s)(act_id a \<mapsto>
                   \<lparr> file_action = action_to_dict
                        ((begin_execute E a (world s)) \<lparr> result := Some ''Skipped (dry run mode)'',
                           status := ''completed'', end_time := Some (now E (world s)) \<rparr>),
                     file_event_id = ev_id event \<rparr>),
                events_dir := (events_dir s)(ev_id event \<mapsto> event_to_dict
                   (event \<lparr> response_actions := response_actions event @
                      [\<lparr> entry_action_id = act_id a, entry_name = name a,
                         entry_status = ''completed'',
                         entry_result = Some ''Skipped (dry run mode)'' \<rparr>] \<rparr>)),
                outbox := outbox s @ [ActionNotification (act_id a) ''completed''] \<rparr>)"
    unfolding execute_action_eq ex by simp
  have 0: "status (ResponseAction uuid cls ps) = ''pending'' \<and>
         status (begin_execute E a w) = ''in_progress''"
    by (simp add: ResponseAction_def begin_execute_def)
  from 0 ex [of E w] 1 2 3 show ?thesis by blast
qed


text \<open>
  The block of a public address in dry-run mode, from the empty store: the two files as
  they are read back from the store after \<^verbatim>\<open>_execute_action\<close> and after the whole
  \<^verbatim>\<open>handle_security_event\<close>, and the infrastructure, on which nothing has run.
\<close>

theorem dry_run_skips_implementation_witness:
  "dry_run (DEFAULT_CONFIG \<lparr> dry_run := True \<rparr>) \<and>
   execute sample_env (DEFAULT_CONFIG \<lparr> dry_run := True \<rparr>)
     (BlockIPAction sample_env DEFAULT_CONFIG ''a1'' scan_event (JStr ''203.0.113.42'') None) []
   = (True,
      \<lparr> act_id = ''a1'', name = ''BlockIPAction'', status = ''completed'',
        requires_verification = False, verification_status = ''pending'',
        result = Some ''Skipped (dry run mode)'', start_time = Some 0, end_time = Some 0,
        error = None, params = BlockIP (JStr ''203.0.113.42'') 3600 \<rparr>,
      []) \<and>
   actions_dir (snd (snd (snd (execute_action sample_env (DEFAULT_CONFIG \<lparr> dry_run := True \<rparr>)
       (BlockIPAction sample_env DEFAULT_CONFIG ''a1'' scan_event (JStr ''203.0.113.42'') None)
       scan_event empty_manager)))) ''a1''
   = Some \<lparr> file_action =
              \<lparr> d_id = ''a1'', d_name = ''BlockIPAction'', d_status = ''completed'',
                d_requires_verification = False, d_verification_status = ''pending'',
                d_result = Some ''Skipped (dry run mode)'', d_start_time = Some 0,
                d_end_time = Some 0, d_error = None \<rparr>,
            file_event_id = ''e1'' \<rparr> \<and>
   map_option j_response_actions
     (events_dir (snd (snd (snd (execute_action sample_env (DEFAULT_CONFIG \<lparr> dry_run := True \<rparr>)
       (BlockIPAction sample_env DEFAULT_CONFIG ''a1'' scan_event (JStr ''203.0.113.42'') None)
       scan_event empty_manager)))) ''e1'')
   = Some [\<lparr> entry_action_id = ''a1'', entry_name = ''BlockIPAction'',
              entry_status = ''completed'', entry_result = Some ''Skipped (dry run mode)'' \<rparr>] \<and>
   outbox (snd (snd (snd (execute_action sample_env (DEFAULT_CONFIG \<lparr> dry_run := True \<rparr>)
       (BlockIPAction sample_env DEFAULT_CONFIG ''a1'' scan_event (JStr ''203.0.113.42'') None)
       scan_event empty_manager))))
   = [ActionNotification ''a1'' ''completed''] \<and>
   world (snd (snd (handle_security_event sample_env (DEFAULT_CONFIG \<lparr> dry_run := True \<rparr>)
      scan_event empty_manager))) = [] \<and>
   map_option (\<lambda>d. (d_name (file_action d), d_status (file_action d), d_result (file_action d)))
     (actions_dir (snd (snd (handle_security_event sample_env (DEFAULT_CONFIG \<lparr> dry_run := True \<rparr>)
        scan_event empty_manager))) ''uuid-'')
   = Some (''BlockIPAction'', ''completed'', Some ''Skipped (dry run mode)'') \<and>
   map_option (\<lambda>d. map (\<lambda>x. (entry_name x, entry_status x, entry_result x))
                      (j_response_actions d))
     (events_dir (snd (snd (handle_security_event sample_env (DEFAULT_CONFIG \<lparr> dry_run := True \<rparr>)
        scan_event empty_manager))) ''e1'')
   = Some [(''BlockIPAction'', ''completed'', Some ''Skipped (dry run mode)''),
           (''ForensicCaptureAction'', ''completed'', Some ''Skipped (dry run mode)'')]"
proof -
  let ?cfg = "DEFAULT_CONFIG \<lparr> dry_run := True \<rparr>"
  let ?a = "BlockIPAction sample_env DEFAULT_CONFIG ''a1'' scan_event (JStr ''203.0.113.42'') None"
  have h: "dry_run ?cfg" by simp
  have a: "?a =
      \<lparr> act_id = ''a1'', name = ''BlockIPAction'', status = ''pending'',
        requires_verification = False, verification_status = ''pending'',
        result = None, start_time = None, end_time = None,
        error = None, params = BlockIP (JStr ''203.0.113.42'') 3600 \<rparr>"
    by (simp add: scan_event_def run_defs)
  have e: "ev_id scan_event = ''e1''" "response_actions scan_event = []"
    by (simp_all add: scan_event_def SecurityEvent_def)
  note t = dry_run_skips_implementation [OF h, of "''a1''" "''BlockIPAction''"
        "BlockIP (JStr ''203.0.113.42'') 3600" sample_env ?a "[]" _ scan_event empty_manager]
  have c1: "execute sample_env ?cfg ?a []
   = (True,
      \<lparr> act_id = ''a1'', name = ''BlockIPAction'', status = ''completed'',
        requires_verification = False, verification_status = ''pending'',
        result = Some ''Skipped (dry run mode)'', start_time = Some 0, end_time = Some 0,
        error = None, params = BlockIP (JStr ''203.0.113.42'') 3600 \<rparr>,
      [])"
    using t by (simp add: a begin_execute_def sample_env_simps)
  from t have x: "execute_action sample_env ?cfg ?a scan_event empty_manager =
           (True,
            (begin_execute sample_env ?a (world empty_manager))
               \<lparr> result := Some ''Skipped (dry run mode)'',
                 status := ''completed'', end_time := Some (now sample_env (world empty_manager)) \<rparr>,
            scan_event \<lparr> response_actions := response_actions scan_event @
               [\<lparr> entry_action_id = act_id ?a, entry_name = name ?a,
                  entry_status = ''completed'',
                  entry_result = Some ''Skipped (dry run mode)'' \<rparr>] \<rparr>,
            empty_manager \<lparr> actions_dir := (actions_dir empty_manager)(act_id ?a \<mapsto>
                   \<lparr> file_action = action_to_dict
                        ((begin_execute sample_env ?a (world empty_manager))
                           \<lparr> result := Some ''Skipped (dry run mode)'',
                             status := ''completed'',
                             end_time := Some (now sample_env (world empty_manager)) \<rparr>),
                     file_event_id = ev_id scan_event \<rparr>),
                events_dir := (events_dir empty_manager)(ev_id scan_event \<mapsto> event_to_dict
                   (scan_event \<lparr> response_actions := response_actions scan_event @
                      [\<lparr> entry_action_id = act_id ?a, entry_name = name ?a,
                         entry_status = ''completed'',
                         entry_result = Some ''Skipped (dry run mode)'' \<rparr>] \<rparr>)),
                outbox := outbox empty_manager @ [ActionNotification (act_id ?a) ''completed''] \<rparr>)"
    by blast
  have c2: "actions_dir (snd (snd (snd (execute_action sample_env ?cfg ?a scan_event
              empty_manager)))) ''a1''
   = Some \<lparr> file_action =
              \<lparr> d_id = ''a1'', d_name = ''BlockIPAction'', d_status = ''completed'',
                d_requires_verification = False, d_verification_status = ''pending'',
                d_result = Some ''Skipped (dry run mode)'', d_start_time = Some 0,
                d_end_time = Some 0, d_error = None \<rparr>,
            file_event_id = ''e1'' \<rparr>"
    unfolding x
    by (simp add: a e begin_execute_def action_to_dict_def sample_env_simps empty_manager_def)
  have c3: "map_option j_response_actions
     (events_dir (snd (snd (snd (execute_action sample_env ?cfg ?a scan_event
        empty_manager)))) ''e1'')
   = Some [\<lparr> entry_action_id = ''a1'', entry_name = ''BlockIPAction'',
              entry_status = ''completed'', entry_result = Some ''Skipped (dry run mode)'' \<rparr>]"
    unfolding x
    by (simp add: a e event_to_dict_def empty_manager_def)
  have c4: "outbox (snd (snd (snd (execute_action sample_env ?cfg ?a scan_event empty_manager))))
   = [ActionNotification ''a1'' ''completed'']"
    unfolding x by (simp add: a empty_manager_def)
  have w: "world (snd (snd (handle_security_event sample_env ?cfg scan_event empty_manager))) = []"
    by (simp add: scan_event_def run_defs)
  have r: "map_option (\<lambda>d. (d_name (file_action d), d_status (file_action d),
                              d_result (file_action d)))
     (actions_dir (snd (snd (handle_security_event sample_env ?cfg scan_event empty_manager)))
        ''uuid-'')
   = Some (''BlockIPAction'', ''completed'', Some ''Skipped (dry run mode)'')"
    by (simp add: scan_event_def run_defs)
  have l: "map_option (\<lambda>d. map (\<lambda>x. (entry_name x, entry_status x, entry_result x))
                      (j_response_actions d))
     (events_dir (snd (snd (handle_security_event sample_env ?cfg scan_event empty_manager)))
        ''e1'')
   = Some [(''BlockIPAction'', ''completed'', Some ''Skipped (dry run mode)''),
           (''ForensicCaptureAction'', ''completed'', Some ''Skipped (dry run mode)'')]"
    by (simp add: scan_event_def run_defs)
  show ?thesis using h c1 c2 c3 c4 w r l by blast
qed


section \<open>Verification of stored actions\<close>

lemma event_round_trip: "event_from_dict uuid clock (event_to_dict e) = e"
  by (cases "verification_time e")
     (simp_all add: event_from_dict_def event_to_dict_def SecurityEvent_def)

lemma constructor_names:
  "name (BlockIPAction E cfg uuid event ip dur) = ''BlockIPAction''"
  "name (RotateCredentialsAction cfg uuid event ct i m) = ''RotateCredentialsAction''"
  "name (ForensicCaptureAction cfg uuid event t cts) = ''ForensicCaptureAction''"
  "name (ExecutePlaybookAction cfg uuid event p ps) = ''ExecutePlaybookAction''"
  by (simp_all add: BlockIPAction_def RotateCredentialsAction_def ForensicCaptureAction_def
        ExecutePlaybookAction_def ResponseAction_def Let_def split: option.split)

lemma isolate_placeholder:
  "\<exists>fresh. IsolateContainerAction E cfg uuid event (JStr ''placeholder'') = Inr fresh \<and>
           name fresh = ''IsolateContainerAction''"
  by (simp add: IsolateContainerAction_def get_container_name_def ResponseAction_def Let_def
        split: option.split)

lemma construct_placeholder_known:
  assumes "cls \<in> {''BlockIPAction'', ''IsolateContainerAction'', ''ForensicCaptureAction'',
                    ''ExecutePlaybookAction''}"
  shows "\<exists>fresh. construct_placeholder E cfg cls uuid event = Some (Inr fresh) \<and>
                 name fresh = cls"
proof -
  from assms have d: "cls = ''BlockIPAction'' \<or> cls = ''IsolateContainerAction'' \<or>
      cls = ''ForensicCaptureAction'' \<or> cls = ''ExecutePlaybookAction''"
    by simp
  have 1: "cls = ''BlockIPAction'' \<Longrightarrow> ?thesis"
    by (simp add: construct_placeholder_def constructor_names)
  have 2: "cls = ''IsolateContainerAction'' \<Longrightarrow> ?thesis"
    using isolate_placeholder [of E cfg uuid event]
    by (simp add: construct_placeholder_def)
  have 3: "cls = ''ForensicCaptureAction'' \<Longrightarrow> ?thesis"
    by (simp add: construct_placeholder_def constructor_names)
  have 4: "cls = ''ExecutePlaybookAction'' \<Longrightarrow> ?thesis"
    by (simp add: construct_placeholder_def constructor_names)
  from d 1 2 3 4 show ?thesis by (elim disjE)
qed

lemmas verify_defs =
  verify_action_def construct_placeholder_def restore_action_def event_from_dict_def

lemma verify_reject_other_classes:
  assumes "actions_dir s aid = Some data"
      and "events_dir s (file_event_id data) = Some ed"
      and "d_name (file_action data) \<in>
             {''BlockIPAction'', ''IsolateContainerAction'', ''ForensicCaptureAction'',
              ''ExecutePlaybookAction''}"
  shows "fst (verify_action E cfg aid False user s) = Inr True"
    and "world (snd (verify_action E cfg aid False user s)) = world s"
    and "map_option (\<lambda>d. d_status (file_action d))
           (actions_dir (snd (verify_action E cfg aid False user s)) aid) = Some ''rejected''"
    and "map_option j_response_actions
           (events_dir (snd (verify_action E cfg aid False user s)) (j_id ed))
         = Some (j_response_actions ed @
             [\<lparr> entry_action_id = aid, entry_name = d_name (file_action data),
                entry_status = ''rejected'', entry_result = Some ''Action rejected by user'' \<rparr>])"
proof -
  let ?ev = "event_from_dict (uuid4 E (uuid_count s)) (now E (world s)) ed"
  from construct_placeholder_known [OF assms(3)]
  obtain fresh where f: "construct_placeholder E cfg (d_name (file_action data))
                     (uuid4 E (Suc (uuid_count s))) ?ev = Some (Inr fresh)"
    and n: "name fresh = d_name (file_action data)"
    by blast
  have e: "ev_id ?ev = j_id ed" "response_actions ?ev = j_response_actions ed"
    by (simp_all add: event_from_dict_def SecurityEvent_def Let_def split: option.split)
  show "fst (verify_action E cfg aid False user s) = Inr True"
    using assms(1,2) f by (simp add: verify_action_def Let_def)
  show "world (snd (verify_action E cfg aid False user s)) = world s"
    using assms(1,2) f by (simp add: verify_action_def Let_def save_action_def save_event_def)
  show "map_option (\<lambda>d. d_status (file_action d))
           (actions_dir (snd (verify_action E cfg aid False user s)) aid) = Some ''rejected''"
    using assms(1,2) f
    by (simp add: verify_action_def Let_def save_action_def save_event_def restore_action_def
          action_to_dict_def)
  show "map_option j_response_actions
           (events_dir (snd (verify_action E cfg aid False user s)) (j_id ed))
         = Some (j_response_actions ed @
             [\<lparr> entry_action_id = aid, entry_name = d_name (file_action data),
                entry_status = ''rejected'', entry_result = Some ''Action rejected by user'' \<rparr>])"
    using assms(1,2) f n e
    by (simp add: verify_action_def Let_def save_action_def save_event_def restore_action_def
          event_to_dict_def)
qed


section \<open>Event types without a response\<close>

lemma process_actions_event_saved:
  "events_dir s (ev_id event) = Some (event_to_dict event) \<Longrightarrow>
     events_dir (snd (process_actions E cfg acts event s)) (ev_id event) =
       Some (event_to_dict (fst (process_actions E cfg acts event s))) \<and>
     ev_id (fst (process_actions E cfg acts event s)) = ev_id event"
proof (induction acts arbitrary: event s)
  case Nil
  then show ?case by simp
next
  case (Cons a acts)
  show ?case
  proof (cases "requires_verification a")
    case True
    have "events_dir (send (VerificationNotification (ev_id event) (act_id a))
             (save_action a event s)) (ev_id event) = Some (event_to_dict event)"
      using Cons.prems by (simp add: send_def save_action_def)
    from Cons.IH [OF this] show ?thesis
      unfolding process_actions_Cons using True by (simp del: process_actions.simps)
  next
    case False
    let ?e = "fst (snd (snd (execute_action E cfg a event s)))"
    let ?s = "snd (snd (snd (execute_action E cfg a event s)))"
    have i: "ev_id ?e = ev_id event" by (simp add: execute_action_eq)
    have "events_dir ?s (ev_id ?e) = Some (event_to_dict ?e)"
      by (simp add: execute_action_eq)
    from Cons.IH [OF this] show ?thesis
      unfolding process_actions_Cons using False i by (simp del: process_actions.simps)
  qed
qed

lemma handle_event_saved:
  "events_dir (snd (snd (handle_security_event E cfg event s))) (ev_id event) =
     Some (event_to_dict (fst (snd (handle_security_event E cfg event s))))"
proof -
  let ?s1 = "s \<lparr> events_dir := (events_dir s)(ev_id event \<mapsto> event_to_dict event),
                  outbox := outbox s @ [EventNotification (ev_id event)] \<rparr>"
  let ?d = "determine_response_actions E cfg event ?s1"
  have "events_dir (snd ?d) = events_dir ?s1"
    by (simp add: determine_response_actions_def Let_def split: json.split)
  then have sv: "events_dir (snd ?d) (ev_id event) = Some (event_to_dict event)"
    by simp
  show ?thesis
  proof (cases "fst ?d")
    case (Inl x)
    then have "snd (handle_security_event E cfg event s) = (event, snd ?d)"
      unfolding handle_security_event_eq by (cases ?d) simp
    with sv show ?thesis by simp
  next
    case (Inr actions)
    then have "snd (handle_security_event E cfg event s) =
               process_actions E cfg actions event (snd ?d)"
      unfolding handle_security_event_eq by (cases ?d) simp
    with process_actions_event_saved [OF sv, of E cfg actions] show ?thesis by simp
  qed
qed

lemma unrecognized_makers:
  assumes "event_type event \<notin>
             {''suspicious_ip'', ''compromised_container'', ''credential_compromise'',
              ''malware_detection'', ''unauthorized_access'', ''data_exfiltration''}"
  shows "response_action_makers E cfg event kvs =
           (let playbook = dict_get kvs ''suggested_playbook''
            in if truthy playbook then
                 (if \<not> hashable playbook then [\<lambda>u. Inl (TypeError ''unhashable type'')]
                  else (case playbook of
                          JStr p \<Rightarrow>
                            if p \<in> set (available cfg)
                            then [\<lambda>u. Inr (ExecutePlaybookAction cfg u event p (details event))]
                            else []
                        | _ \<Rightarrow> []))
               else [])"
  using assms by (simp add: response_action_makers_def)

text \<open>
  Claim C4, as the code has it. An event whose type is none of the six the policy names is
  not refused. Its record is in the store when \<^verbatim>\<open>handle_security_event\<close> ends, also when
  it ends by raising. When the details are a JSON object whose \<^verbatim>\<open>suggested_playbook\<close>
  is absent, falsy or a hashable value, the call returns the identifier of the event, and
  the derived actions are the one \<^verbatim>\<open>ExecutePlaybookAction\<close> for
  \<^verbatim>\<open>suggested_playbook\<close> when that is a string naming an available playbook, and none
  otherwise. When \<^verbatim>\<open>suggested_playbook\<close> is absent or falsy the call does nothing but
  store the event and send the event notification. Details of another shape, for which the
  call raises, are no part of the statement beyond the stored event record.
\<close>

theorem unrecognized_event_type_accepted:
  assumes "event_type event \<notin>
             {''suspicious_ip'', ''compromised_container'', ''credential_compromise'',
              ''malware_detection'', ''unauthorized_access'', ''data_exfiltration''}"
  shows "events_dir (snd (snd (handle_security_event E cfg event s))) (ev_id event) =
           Some (event_to_dict (fst (snd (handle_security_event E cfg event s)))) \<and>
         (\<forall>kvs. details event = JDict kvs \<and>
                (\<not> truthy (dict_get kvs ''suggested_playbook'') \<or>
                 hashable (dict_get kvs ''suggested_playbook'')) \<longrightarrow>
            fst (handle_security_event E cfg event s) = Inr (ev_id event) \<and>
            fst (determine_response_actions E cfg event s) =
              Inr (case dict_get kvs ''suggested_playbook'' of
                     JStr p \<Rightarrow>
                       if p \<noteq> [] \<and> p \<in> set (available cfg)
                       then [ExecutePlaybookAction cfg (uuid4 E (uuid_count s)) event p
                               (details event)]
                       else []
                   | _ \<Rightarrow> [])) \<and>
         (\<forall>kvs. details event = JDict kvs \<and>
                \<not> truthy (dict_get kvs ''suggested_playbook'') \<longrightarrow>
            handle_security_event E cfg event s =
              (Inr (ev_id event), event,
               s \<lparr> events_dir := (events_dir s)(ev_id event \<mapsto> event_to_dict event),
                    outbox := outbox s @ [EventNotification (ev_id event)] \<rparr>))"
proof (intro conjI allI impI)
  show "events_dir (snd (snd (handle_security_event E cfg event s))) (ev_id event) =
           Some (event_to_dict (fst (snd (handle_security_event E cfg event s))))"
    by (rule handle_event_saved)
next
  fix kvs
  assume a: "details event = JDict kvs \<and>
                (\<not> truthy (dict_get kvs ''suggested_playbook'') \<or>
                 hashable (dict_get kvs ''suggested_playbook''))"
  let ?p = "dict_get kvs ''suggested_playbook''"
  have d: "fst (determine_response_actions E cfg event s') =
              Inr (case ?p of
                     JStr p \<Rightarrow>
                       if p \<noteq> [] \<and> p \<in> set (available cfg)
                       then [ExecutePlaybookAction cfg (uuid4 E (uuid_count s')) event p
                               (details event)]
                       else []
                   | _ \<Rightarrow> [])" for s'
    using a
    by (cases ?p)
       (auto simp add: determine_response_actions_def unrecognized_makers [OF assms] Let_def)
  show "fst (determine_response_actions E cfg event s) =
              Inr (case ?p of
                     JStr p \<Rightarrow>
                       if p \<noteq> [] \<and> p \<in> set (available cfg)
                       then [ExecutePlaybookAction cfg (uuid4 E (uuid_count s)) event p
                               (details event)]
                       else []
                   | _ \<Rightarrow> [])"
    by (rule d)
  let ?s1 = "s \<lparr> events_dir := (events_dir s)(ev_id event \<mapsto> event_to_dict event),
                  outbox := outbox s @ [EventNotification (ev_id event)] \<rparr>"
  obtain acts where "fst (determine_response_actions E cfg event ?s1) = Inr acts"
    using d [of ?s1] by blast
  then show "fst (handle_security_event E cfg event s) = Inr (ev_id event)"
    unfolding handle_security_event_eq
    by (cases "determine_response_actions E cfg event ?s1") (simp split: prod.split)
next
  fix kvs
  assume a: "details event = JDict kvs \<and> \<not> truthy (dict_get kvs ''suggested_playbook'')"
  then show "handle_security_event E cfg event s =
              (Inr (ev_id event), event,
               s \<lparr> events_dir := (events_dir s)(ev_id event \<mapsto> event_to_dict event),
                    outbox := outbox s @ [EventNotification (ev_id event)] \<rparr>)"
    by (simp add: handle_security_event_eq determine_response_actions_def
          unrecognized_makers [OF assms] Let_def)
qed


text \<open>
  An event of type \<^verbatim>\<open>port_scan\<close> under the default configuration: without details it is
  stored and answered with its identifier and derives no action; with the suggested
  playbook \<^verbatim>\<open>ransomware\<close> it derives that playbook.
\<close>

theorem unrecognized_event_type_accepted_witness:
  "event_type unmapped_event \<notin>
             {''suspicious_ip'', ''compromised_container'', ''credential_compromise'',
              ''malware_detection'', ''unauthorized_access'', ''data_exfiltration''} \<and>
   details unmapped_event = JDict [] \<and>
   hashable (dict_get [(''suggested_playbook'', JStr ''ransomware'')] ''suggested_playbook'') \<and>
   fst (handle_security_event sample_env DEFAULT_CONFIG unmapped_event empty_manager)
     = Inr ''e4'' \<and>
   events_dir (snd (snd (handle_security_event sample_env DEFAULT_CONFIG unmapped_event
      empty_manager))) ''e4'' = Some (event_to_dict unmapped_event) \<and>
   fst (determine_response_actions sample_env DEFAULT_CONFIG unmapped_event empty_manager)
     = Inr [] \<and>
   fst (determine_response_actions sample_env DEFAULT_CONFIG
          (unmapped_event \<lparr> details := JDict [(''suggested_playbook'', JStr ''ransomware'')] \<rparr>)
          empty_manager)
     = Inr [ExecutePlaybookAction DEFAULT_CONFIG ''uuid-''
          (unmapped_event \<lparr> details := JDict [(''suggested_playbook'', JStr ''ransomware'')] \<rparr>)
          ''ransomware'' (JDict [(''suggested_playbook'', JStr ''ransomware'')])]"
proof -
  let ?e' = "unmapped_event \<lparr> details := JDict [(''suggested_playbook'', JStr ''ransomware'')] \<rparr>"
  have h: "event_type unmapped_event \<notin>
             {''suspicious_ip'', ''compromised_container'', ''credential_compromise'',
              ''malware_detection'', ''unauthorized_access'', ''data_exfiltration''}"
    by (simp add: unmapped_event_def SecurityEvent_def)
  have h': "event_type ?e' \<notin>
             {''suspicious_ip'', ''compromised_container'', ''credential_compromise'',
              ''malware_detection'', ''unauthorized_access'', ''data_exfiltration''}"
    by (simp add: unmapped_event_def SecurityEvent_def)
  have d: "details unmapped_event = JDict []" "ev_id unmapped_event = ''e4''"
    by (simp_all add: unmapped_event_def SecurityEvent_def)
  have d': "details ?e' = JDict [(''suggested_playbook'', JStr ''ransomware'')]" by simp
  have g: "dict_get [] ''suggested_playbook'' = JNull"
          "dict_get [(''suggested_playbook'', JStr ''ransomware'')] ''suggested_playbook''
             = JStr ''ransomware''"
    by (simp_all add: dict_get_def)
  note t = unrecognized_event_type_accepted [OF h, of sample_env DEFAULT_CONFIG empty_manager]
  note t' = unrecognized_event_type_accepted [OF h', of sample_env DEFAULT_CONFIG empty_manager]
  from t d g have c1: "handle_security_event sample_env DEFAULT_CONFIG unmapped_event empty_manager
      = (Inr ''e4'', unmapped_event,
         empty_manager \<lparr> events_dir := (events_dir empty_manager)(''e4'' \<mapsto>
              event_to_dict unmapped_event),
           outbox := outbox empty_manager @ [EventNotification ''e4''] \<rparr>)"
    by simp
  from t d g have c2: "fst (determine_response_actions sample_env DEFAULT_CONFIG unmapped_event
      empty_manager) = Inr []"
    by simp
  from t' d' g have c3: "fst (determine_response_actions sample_env DEFAULT_CONFIG ?e'
      empty_manager)
     = Inr [ExecutePlaybookAction DEFAULT_CONFIG ''uuid-'' ?e' ''ransomware''
              (JDict [(''suggested_playbook'', JStr ''ransomware'')])]"
    by (simp add: default_config_simps sample_env_simps empty_manager_def)
  show ?thesis
    using h d(1) c2 c3 by (simp add: c1 g)
qed

text \<open>
  Claim C4 as it is worded fails: an event of type \<^verbatim>\<open>port_scan\<close> is accepted, stored
  and answered with its identifier, with no action derived.
\<close>

theorem unknown_event_kind_counterexample:
  "event_type unmapped_event = ''port_scan'' \<and>
   handle_security_event sample_env DEFAULT_CONFIG unmapped_event empty_manager =
     (Inr ''e4'', unmapped_event,
      empty_manager \<lparr> events_dir := [''e4'' \<mapsto> event_to_dict unmapped_event],
                      outbox := [EventNotification ''e4''] \<rparr>)"
  by (simp add: handle_security_event_eq determine_response_actions_def
        response_action_makers_def dict_get_def unmapped_event_def
        SecurityEvent_def empty_manager_def)

text \<open>
  Details the statement above leaves out. Details that are a list have no \<^verbatim>\<open>get\<close>; a
  list as \<^verbatim>\<open>suggested_playbook\<close> cannot be looked up among the available playbooks; a
  container identifier that is a number cannot be passed to the container engine. Each
  call raises, after the event was stored.
\<close>

lemma ill_typed_details_raise:
  "fst (handle_security_event sample_env DEFAULT_CONFIG
          (unmapped_event \<lparr> details := JList [JInt 1, JInt 2] \<rparr>) empty_manager)
     = Inl (AttributeError ''object has no attribute get'')"
  "fst (handle_security_event sample_env DEFAULT_CONFIG
          (unmapped_event \<lparr> details :=
             JDict [(''suggested_playbook'', JList [JStr ''ransomware''])] \<rparr>) empty_manager)
     = Inl (TypeError ''unhashable type'')"
  "fst (handle_security_event sample_env DEFAULT_CONFIG
          (container_event \<lparr> details := JDict [(''container_id'', JInt 5)] \<rparr>) empty_manager)
     = Inl (TypeError ''expected str, bytes or os.PathLike object'')"
  by (simp_all add: handle_security_event_eq determine_response_actions_def
        response_action_makers_def dict_get_def unmapped_event_def container_event_def
        IsolateContainerAction_def get_container_name_def default_config_simps
        SecurityEvent_def empty_manager_def Let_def)


section \<open>Where the code departs from its documentation\<close>

text \<open>
  Claim C3 at a failing input. The constructor's comment and the command line's help give
  the range 0 to 100 for the severity, and nothing enforces it: a severity of 150 is stored
  on the event and in its record as it is, as is a negative one. With the threshold 100,
  under which every severity of the documented range requires verification, the block of a
  public address at severity 150 is auto-executed.
\<close>

theorem severity_stored_as_supplied:
  "severity (SecurityEvent ''e5'' 0 ''suspicious_ip'' ''cli'' (JDict []) 150) = 150 \<and>
   map_option j_severity
     (events_dir (snd (snd (handle_security_event sample_env DEFAULT_CONFIG
        (SecurityEvent ''e5'' 0 ''suspicious_ip'' ''cli'' (JDict []) 150) empty_manager))) ''e5'')
     = Some 150 \<and>
   severity (SecurityEvent ''e5'' 0 ''suspicious_ip'' ''cli'' (JDict []) (- 7)) = - 7 \<and>
   \<not> requires_verification
       (BlockIPAction sample_env (DEFAULT_CONFIG \<lparr> max_auto_block_score := 100 \<rparr>) ''a1''
          (SecurityEvent ''e5'' 0 ''suspicious_ip'' ''cli'' (JDict []) 150)
          (JStr ''203.0.113.42'') None)"
  by (simp add: run_defs)

text \<open>
  Claim C2 at a failing input. The docstring of \<^verbatim>\<open>verify_action\<close> and the help of the
  command line say that a pending action is verified, and \<^verbatim>\<open>list_pending_actions\<close> shows
  only records whose status is \<^verbatim>\<open>pending\<close>; \<^verbatim>\<open>verify_action\<close> itself never reads the
  stored status. The block that was executed and completed during the submission of the
  scan event is approved: the call returns \<^verbatim>\<open>True\<close>, the implementation runs once more
  for the same action identifier, and the event's log gets a third entry.
\<close>

theorem verify_approve_runs_completed_action:
  "map_option (\<lambda>d. (d_name (file_action d), d_status (file_action d)))
     (actions_dir scanned ''uuid-'') = Some (''BlockIPAction'', ''completed'') \<and>
   world scanned = [''uuid-'', ''uuid-i''] \<and>
   fst (verify_action sample_env DEFAULT_CONFIG ''uuid-'' True ''admin'' scanned) = Inr True \<and>
   world (snd (verify_action sample_env DEFAULT_CONFIG ''uuid-'' True ''admin'' scanned))
     = [''uuid-'', ''uuid-i'', ''uuid-''] \<and>
   map_option (\<lambda>d. map (\<lambda>x. (entry_action_id x, entry_status x)) (j_response_actions d))
     (events_dir (snd (verify_action sample_env DEFAULT_CONFIG ''uuid-'' True ''admin'' scanned))
        ''e1'')
     = Some [(''uuid-'', ''completed''), (''uuid-i'', ''completed''), (''uuid-'', ''completed'')]"
  by (simp add: scanned_def scan_event_def run_defs verify_defs)

text \<open>
  Claim C5 at a failing input. The record of a \<^verbatim>\<open>BlockIPAction\<close> for
  \<^verbatim>\<open>203.0.113.42\<close> has no key for the address or the duration; the object
  \<^verbatim>\<open>verify_action\<close> builds from the record blocks the address \<^verbatim>\<open>placeholder\<close>. (The
  event half of the claim holds: \<open>event_round_trip\<close>.)
\<close>

theorem stored_action_loses_parameters:
  "params (BlockIPAction sample_env DEFAULT_CONFIG ''a1'' (scan_event \<lparr> severity := 60 \<rparr>)
             (JStr ''203.0.113.42'') None) = BlockIP (JStr ''203.0.113.42'') 3600 \<and>
   construct_placeholder sample_env DEFAULT_CONFIG
     (d_name (action_to_dict (BlockIPAction sample_env DEFAULT_CONFIG ''a1''
        (scan_event \<lparr> severity := 60 \<rparr>) (JStr ''203.0.113.42'') None)))
     ''a2'' (scan_event \<lparr> severity := 60 \<rparr>)
   = Some (Inr (BlockIPAction sample_env DEFAULT_CONFIG ''a2'' (scan_event \<lparr> severity := 60 \<rparr>)
                  (JStr ''placeholder'') None)) \<and>
   params (restore_action
             (BlockIPAction sample_env DEFAULT_CONFIG ''a2'' (scan_event \<lparr> severity := 60 \<rparr>)
                (JStr ''placeholder'') None)
             ''a1''
             \<lparr> file_action = action_to_dict (BlockIPAction sample_env DEFAULT_CONFIG ''a1''
                  (scan_event \<lparr> severity := 60 \<rparr>) (JStr ''203.0.113.42'') None),
               file_event_id = ''e1'' \<rparr>
             True)
     = BlockIP (JStr ''placeholder'') 3600"
  by (simp add: BlockIPAction_def ResponseAction_def construct_placeholder_def
        restore_action_def action_to_dict_def default_config_simps sample_env_simps
        sample_parse Let_def)

text \<open>
  Claim C8 at a failing input. A credential event at severity 0 leaves a pending
  \<^verbatim>\<open>RotateCredentialsAction\<close>. Rejecting it raises \<^verbatim>\<open>TypeError\<close> from the
  reconstruction, and neither the action record nor the event record changes. (For the
  four other classes rejection does what the claim says: \<open>verify_reject_other_classes\<close>.)
\<close>

theorem verify_rotation_raises:
  "map_option (\<lambda>d. (d_name (file_action d), d_status (file_action d),
                     d_requires_verification (file_action d)))
     (actions_dir pending_rotation ''uuid-'')
     = Some (''RotateCredentialsAction'', ''pending'', True) \<and>
   fst (verify_action sample_env DEFAULT_CONFIG ''uuid-'' False ''admin'' pending_rotation)
     = Inl (TypeError ''__init__() missing 1 required positional argument: identifier'') \<and>
   actions_dir (snd (verify_action sample_env DEFAULT_CONFIG ''uuid-'' False ''admin''
                       pending_rotation)) = actions_dir pending_rotation \<and>
   events_dir (snd (verify_action sample_env DEFAULT_CONFIG ''uuid-'' False ''admin''
                       pending_rotation)) = events_dir pending_rotation"
  by (simp add: pending_rotation_def credential_event_def run_defs verify_defs)

end
